theory Spec2Isabelle
  imports Complex_Main
begin

section \<open>PeduliGiziBalita: the z-score and KPSP endpoints of app.py\<close>

text \<open>
  The development embeds the computational part of \<^verbatim>\<open>app.py\<close>: the utility functions
  \<^verbatim>\<open>as_float\<close>, \<^verbatim>\<open>validate_measurement\<close>, \<^verbatim>\<open>calculate_z_score\<close>,
  \<^verbatim>\<open>classify_nutrition\<close> and the two request handlers \<^verbatim>\<open>api_calculate_zscore\<close> and
  \<^verbatim>\<open>api_kpsp_evaluate\<close>.

  Conventions of the embedding.
  \<^item> A Python float is a real number: rounding, overflow to infinity and NaN are outside
    the model. An \<^verbatim>\<open>int\<close> is an \<open>int\<close>.
  \<^item> A Python string is a \<open>string\<close>, one \<open>char\<close> for each code point (so the model
    covers code points below 256).
  \<^item> A raised exception is a value \<open>PyExn cls msg\<close>; code that may raise returns a sum
    with the exception on the left.
  \<^item> The WHO calculator of the \<^verbatim>\<open>pygrowup\<close> package and Python's conversion of a
    string to a float are not part of \<^verbatim>\<open>app.py\<close>; they are parameters.
\<close>

subsection \<open>JSON values and exceptions\<close>

text \<open>
  What \<^verbatim>\<open>request.get_json()\<close> yields. Python's \<^verbatim>\<open>json\<close> reads a number
  literal without fraction or exponent as an \<^verbatim>\<open>int\<close> and any other as a
  \<^verbatim>\<open>float\<close>. An object is a \<^verbatim>\<open>dict\<close>, here an association list read with
  \<open>map_of\<close>; its keys are distinct, as those of a \<^verbatim>\<open>dict\<close> are.
\<close>

datatype json =
    JNull
  | JBool bool
  | JInt int
  | JFloat real
  | JStr string
  | JArr "json list"
  | JObj "(string \<times> json) list"

datatype exn = PyExn (exn_class: string) (exn_str: string)

text \<open>The name of a value's Python type, as it appears in error messages.\<close>

fun type_name :: "json \<Rightarrow> string" where
  "type_name JNull = ''NoneType''"
| "type_name (JBool _) = ''bool''"
| "type_name (JInt _) = ''int''"
| "type_name (JFloat _) = ''float''"
| "type_name (JStr _) = ''str''"
| "type_name (JArr _) = ''list''"
| "type_name (JObj _) = ''dict''"

definition quoted :: "string \<Rightarrow> string" where
  "quoted s = CHR 0x27 # s @ [CHR 0x27]"

definition no_attribute :: "json \<Rightarrow> string \<Rightarrow> exn" where
  "no_attribute v attr =
     PyExn ''AttributeError'' (quoted (type_name v) @ '' object has no attribute '' @ quoted attr)"

text \<open>
  \<^verbatim>\<open>data.get(key)\<close> and \<^verbatim>\<open>data.get(key, default)\<close>: only a \<^verbatim>\<open>dict\<close> has the
  method; a missing key gives \<^verbatim>\<open>None\<close>, or the default.
\<close>

fun py_get_default :: "json \<Rightarrow> string \<Rightarrow> json \<Rightarrow> exn + json" where
  "py_get_default (JObj kvs) k d = Inr (case map_of kvs k of None \<Rightarrow> d | Some v \<Rightarrow> v)"
| "py_get_default v k d = Inl (no_attribute v ''get'')"

definition py_get :: "json \<Rightarrow> string \<Rightarrow> exn + json" where
  "py_get data k = py_get_default data k JNull"

text \<open>Truth value of a JSON value in a Python condition.\<close>

fun truthy :: "json \<Rightarrow> bool" where
  "truthy JNull = False"
| "truthy (JBool b) = b"
| "truthy (JInt i) = (i \<noteq> 0)"
| "truthy (JFloat r) = (r \<noteq> 0)"
| "truthy (JStr s) = (s \<noteq> [])"
| "truthy (JArr xs) = (xs \<noteq> [])"
| "truthy (JObj kvs) = (kvs \<noteq> [])"

text \<open>
  \<^verbatim>\<open>len(x)\<close>, and the items a \<^verbatim>\<open>for\<close> loop over \<^verbatim>\<open>x\<close> visits: the elements of a
  list, the one-character strings of a string, the keys of a dict.
\<close>

fun py_len :: "json \<Rightarrow> exn + nat" where
  "py_len (JArr xs) = Inr (length xs)"
| "py_len (JStr s) = Inr (length s)"
| "py_len (JObj kvs) = Inr (length kvs)"
| "py_len v = Inl (PyExn ''TypeError'' (''object of type '' @ quoted (type_name v) @ '' has no len()''))"

fun py_iter :: "json \<Rightarrow> exn + json list" where
  "py_iter (JArr xs) = Inr xs"
| "py_iter (JStr s) = Inr (map (\<lambda>c. JStr [c]) s)"
| "py_iter (JObj kvs) = Inr (map (\<lambda>kv. JStr (fst kv)) kvs)"
| "py_iter v = Inl (PyExn ''TypeError'' (quoted (type_name v) @ '' object is not iterable''))"

text \<open>
  \<^verbatim>\<open>str.upper()\<close> on the letters a to z; other characters are kept. (Python also maps
  letters outside ASCII; none of them becomes an \<^verbatim>\<open>M\<close> or an \<^verbatim>\<open>F\<close>, the only
  strings the result is compared with.)
\<close>

definition upper_char :: "char \<Rightarrow> char" where
  "upper_char c =
     (case map_of (zip ''abcdefghijklmnopqrstuvwxyz'' ''ABCDEFGHIJKLMNOPQRSTUVWXYZ'') c of
        None \<Rightarrow> c
      | Some u \<Rightarrow> u)"

fun upper :: "json \<Rightarrow> exn + string" where
  "upper (JStr s) = Inr (map upper_char s)"
| "upper v = Inl (no_attribute v ''upper'')"

subsection \<open>Section 5 of app.py: utility functions\<close>

text \<open>
  \<^verbatim>\<open>float(x)\<close> of an \<^verbatim>\<open>int\<close> raises \<^verbatim>\<open>OverflowError\<close> when the integer rounds
  beyond the largest double; \<^verbatim>\<open>as_float\<close> catches only \<^verbatim>\<open>ValueError\<close> and
  \<^verbatim>\<open>TypeError\<close>, so that exception leaves the function.
\<close>

definition float_int_limit :: int where
  "float_int_limit = 2 ^ 1024 - 2 ^ 970"

text \<open>
  \<^verbatim>\<open>as_float\<close>. The parameter \<open>float_str\<close> is Python's \<^verbatim>\<open>float\<close> on a string:
  \<open>None\<close> where it raises \<^verbatim>\<open>ValueError\<close>.
\<close>

fun as_float :: "(string \<Rightarrow> real option) \<Rightarrow> json \<Rightarrow> exn + real option" where
  "as_float float_str JNull = Inr None"
| "as_float float_str (JStr s) = (if s = [] then Inr None else Inr (float_str s))"
| "as_float float_str (JBool b) = Inr (Some (if b then 1 else 0))"
| "as_float float_str (JInt i) =
     (if \<bar>i\<bar> \<ge> float_int_limit
      then Inl (PyExn ''OverflowError'' ''int too large to convert to float'')
      else Inr (Some (of_int i)))"
| "as_float float_str (JFloat r) = Inr (Some r)"
| "as_float float_str (JArr xs) = Inr None"
| "as_float float_str (JObj kvs) = Inr None"

text \<open>\<^verbatim>\<open>validate_measurement(value, bounds, field_name)\<close>.\<close>

fun validate_measurement :: "real option \<Rightarrow> real \<times> real \<Rightarrow> string \<Rightarrow> bool" where
  "validate_measurement None (min_val, max_val) field_name = False"
| "validate_measurement (Some v) (min_val, max_val) field_name =
     (if \<not> (min_val \<le> v \<and> v \<le> max_val) then False else True)"

text \<open>The table \<^verbatim>\<open>BOUNDS\<close> of section 2.\<close>

definition BOUNDS :: "string \<Rightarrow> (real \<times> real) option" where
  "BOUNDS = map_of
     [(''wfa'', (1.0, 30.0)),
      (''hfa'', (45.0, 125.0)),
      (''hcfa'', (30.0, 55.0)),
      (''wfl_w'', (1.0, 30.0)),
      (''wfl_l'', (45.0, 110.0))]"

text \<open>\<^verbatim>\<open>classify_nutrition(z_score)\<close>: the dict it returns, as a record.\<close>

record classification =
  status :: string
  color :: string
  category :: string

definition classify_nutrition :: "real option \<Rightarrow> classification" where
  "classify_nutrition z_score =
     (case z_score of
        None \<Rightarrow> \<lparr>status = ''Tidak dapat dinilai'', color = ''#9e9e9e'', category = ''unknown''\<rparr>
      | Some z \<Rightarrow>
          if z < -3 then
            \<lparr>status = ''Gizi Buruk'', color = ''#d32f2f'', category = ''severe_underweight''\<rparr>
          else if z < -2 then
            \<lparr>status = ''Gizi Kurang'', color = ''#f57c00'', category = ''underweight''\<rparr>
          else if z \<le> 1 then
            \<lparr>status = ''Gizi Baik'', color = ''#388e3c'', category = ''normal''\<rparr>
          else if z \<le> 2 then
            \<lparr>status = ''Berisiko Gizi Lebih'', color = ''#fbc02d'', category = ''risk_overweight''\<rparr>
          else if z \<le> 3 then
            \<lparr>status = ''Gizi Lebih'', color = ''#f57c00'', category = ''overweight''\<rparr>
          else
            \<lparr>status = ''Obesitas'', color = ''#d32f2f'', category = ''obese''\<rparr>)"

subsection \<open>The WHO calculator and the process state\<close>

text \<open>
  A method of the calculator object either raises or returns a value (a z-score, a
  number whatever its Python type, or \<^verbatim>\<open>None\<close>). The five methods \<^verbatim>\<open>calculate_z_score\<close> calls, each with the types of
  the arguments it receives there (\<^verbatim>\<open>height\<close> may be \<^verbatim>\<open>None\<close>).
\<close>

datatype calc_result = Raises exn | Returns "real option"

record calculator =
  wfa :: "real \<Rightarrow> real \<Rightarrow> string \<Rightarrow> calc_result"
  hfa :: "real option \<Rightarrow> real \<Rightarrow> string \<Rightarrow> calc_result"
  wfh :: "real \<Rightarrow> real option \<Rightarrow> string \<Rightarrow> calc_result"
  bfa :: "real \<Rightarrow> real option \<Rightarrow> string \<Rightarrow> calc_result"
  hcfa :: "real \<Rightarrow> real \<Rightarrow> string \<Rightarrow> calc_result"

text \<open>
  The state of the process that the functions below read or write: the global
  \<^verbatim>\<open>calc\<close> (\<^verbatim>\<open>None\<close> when the initialisation of section 3 failed) and the lines
  printed so far.
\<close>

record process =
  calc :: "calculator option"
  stdout :: "string list"

text \<open>
  \<^verbatim>\<open>calculate_z_score(weight, height, age_months, gender, measurement_type)\<close>. The
  chain of comparisons inside its \<^verbatim>\<open>try\<close> is \<open>z_score_lookup\<close>; an exception of the
  calculator is printed and the function returns \<^verbatim>\<open>None\<close>.
\<close>

definition z_score_lookup ::
  "calculator \<Rightarrow> real \<Rightarrow> real option \<Rightarrow> real \<Rightarrow> string \<Rightarrow> json \<Rightarrow> calc_result" where
  "z_score_lookup c w h a g t =
     (if t = JStr ''wfa'' then wfa c w a g
      else if t = JStr ''hfa'' then hfa c h a g
      else if t = JStr ''wfh'' then wfh c w h g
      else if t = JStr ''bfa'' then bfa c w h g
      else if t = JStr ''hcfa'' then hcfa c w a g
      else Returns None)"

definition calculate_z_score ::
  "process \<Rightarrow> real \<Rightarrow> real option \<Rightarrow> real \<Rightarrow> string \<Rightarrow> json \<Rightarrow> real option \<times> process" where
  "calculate_z_score s w h a g t =
     (case calc s of
        None \<Rightarrow> (None, s)
      | Some c \<Rightarrow>
          (case z_score_lookup c w h a g t of
             Returns z \<Rightarrow> (z, s)
           | Raises e \<Rightarrow>
               (None, s\<lparr>stdout := stdout s @ [''Error calculating z-score: '' @ exn_str e]\<rparr>)))"

subsection \<open>Responses\<close>

text \<open>A response is a status code and a JSON body; \<^verbatim>\<open>jsonify(d)\<close> alone has status 200.\<close>

type_synonym response = "nat \<times> json"

definition jsonify :: "(string \<times> json) list \<Rightarrow> response" where
  "jsonify kvs = (200, JObj kvs)"

definition error_response :: "nat \<Rightarrow> string \<Rightarrow> response" where
  "error_response code msg = (code, JObj [(''error'', JStr msg)])"

text \<open>The value under a key of the response body, \<open>None\<close> when the body has no such key.\<close>

definition body_field :: "response \<Rightarrow> string \<Rightarrow> json option" where
  "body_field r k = (case snd r of JObj kvs \<Rightarrow> map_of kvs k | _ \<Rightarrow> None)"

definition classification_json :: "classification \<Rightarrow> json" where
  "classification_json cl =
     JObj [(''status'', JStr (status cl)), (''color'', JStr (color cl)),
           (''category'', JStr (category cl))]"

definition json_of_option :: "real option \<Rightarrow> json" where
  "json_of_option x = (case x of None \<Rightarrow> JNull | Some r \<Rightarrow> JFloat r)"

text \<open>
  \<^verbatim>\<open>round(x, n)\<close>: the nearest multiple of \<open>10\<^sup>-\<^sup>n\<close>, a tie going to the even one.
\<close>

definition round_half_even :: "real \<Rightarrow> int" where
  "round_half_even x =
     (let f = \<lfloor>x\<rfloor>; d = x - of_int f
      in if d < 1 / 2 then f else if d > 1 / 2 then f + 1 else if even f then f else f + 1)"

definition py_round :: "real \<Rightarrow> nat \<Rightarrow> real" where
  "py_round x n = of_int (round_half_even (x * 10 ^ n)) / 10 ^ n"

text \<open>Sequencing of code that may raise: the first exception ends the block.\<close>

definition and_then :: "exn + 'a \<Rightarrow> ('a \<Rightarrow> exn + 'b) \<Rightarrow> exn + 'b" where
  "and_then m f = (case m of Inl e \<Rightarrow> Inl e | Inr x \<Rightarrow> f x)"

subsection \<open>POST /api/calculate-zscore\<close>

text \<open>
  The handler in two parts. The first is the \<^verbatim>\<open>try\<close> block up to the call of
  \<^verbatim>\<open>calculate_z_score\<close>: it reads the five fields and checks them. It raises, or
  returns a response (\<open>Reject\<close>), or reaches the call with the arguments it passes
  (\<open>Accept\<close>). So \<^verbatim>\<open>calculate_z_score\<close> is invoked exactly when the first part
  yields \<open>Inr (Accept args)\<close>, and then on \<open>args\<close>.
\<close>

datatype 'a checked = Reject response | Accept 'a

record zscore_args =
  arg_weight :: real
  arg_height :: "real option"
  arg_age_months :: real
  arg_gender :: string
  arg_type :: json

definition api_calculate_zscore_inputs ::
  "(string \<Rightarrow> real option) \<Rightarrow> json \<Rightarrow> exn + zscore_args checked" where
  "api_calculate_zscore_inputs float_str data =
     and_then (py_get data ''weight'') (\<lambda>wv.
     and_then (as_float float_str wv) (\<lambda>weight.
     and_then (py_get data ''height'') (\<lambda>hv.
     and_then (as_float float_str hv) (\<lambda>height.
     and_then (py_get data ''age_months'') (\<lambda>av.
     and_then (as_float float_str av) (\<lambda>age_months.
     and_then (py_get_default data ''gender'' (JStr ''M'')) (\<lambda>gv.
     and_then (upper gv) (\<lambda>gender.
     and_then (py_get_default data ''type'' (JStr ''wfa'')) (\<lambda>measurement_type.
       if weight = None \<or> age_months = None
       then Inr (Reject (error_response 400 ''Weight and age are required''))
       else if gender \<notin> set [''M'', ''F'']
       then Inr (Reject (error_response 400 ''Gender must be M or F''))
       else Inr (Accept \<lparr>arg_weight = the weight, arg_height = height,
                            arg_age_months = the age_months, arg_gender = gender,
                            arg_type = measurement_type\<rparr>))))))))))"

text \<open>
  The second part: the call, the classification and the response; and the handler's
  \<^verbatim>\<open>except Exception\<close>, which turns an exception into a 500 carrying its text.
\<close>

definition zscore_response :: "zscore_args \<Rightarrow> real option \<Rightarrow> response" where
  "zscore_response args z_score =
     (case z_score of
        None \<Rightarrow> error_response 500 ''Could not calculate z-score''
      | Some z \<Rightarrow>
          jsonify
            [(''z_score'', JFloat (py_round z 2)),
             (''classification'', classification_json (classify_nutrition (Some z))),
             (''measurement_type'', arg_type args),
             (''inputs'', JObj
                [(''weight'', JFloat (arg_weight args)),
                 (''height'', json_of_option (arg_height args)),
                 (''age_months'', JFloat (arg_age_months args)),
                 (''gender'', JStr (arg_gender args))])])"

definition api_calculate_zscore ::
  "(string \<Rightarrow> real option) \<Rightarrow> process \<Rightarrow> json \<Rightarrow> response \<times> process" where
  "api_calculate_zscore float_str s data =
     (case api_calculate_zscore_inputs float_str data of
        Inl e \<Rightarrow> (error_response 500 (exn_str e), s)
      | Inr (Reject r) \<Rightarrow> (r, s)
      | Inr (Accept args) \<Rightarrow>
          (case calculate_z_score s (arg_weight args) (arg_height args) (arg_age_months args)
                  (arg_gender args) (arg_type args) of
             (z_score, s') \<Rightarrow> (zscore_response args z_score, s')))"

subsection \<open>POST /api/kpsp-evaluate\<close>

text \<open>The table \<^verbatim>\<open>KPSP_QUESTIONS\<close> of section 2: the questions of each age band.\<close>

definition KPSP_QUESTIONS :: "(int \<times> string list) list" where
  "KPSP_QUESTIONS =
     [(3,
       [''Apakah anak dapat mengangkat kepalanya 45'' @ [CHR 0xB0] @ '' saat tengkurap?'',
        ''Apakah anak tersenyum saat diajak bicara atau tersenyum sendiri?'',
        ''Apakah anak mengeluarkan suara-suara (mengoceh)?'',
        ''Apakah anak dapat menatap dan mengikuti wajah ibu/pengasuh?'',
        ''Apakah anak berusaha meraih benda atau mainan yang ditunjukkan?'']),
      (6,
       [''Apakah anak dapat duduk dengan bantuan (bersandar)?'',
        ''Apakah anak dapat memindahkan mainan dari tangan satu ke tangan lain?'',
        ''Apakah anak mengeluarkan suara vokal seperti '' @ [CHR 0x27] @ ''a-u-o'' @ [CHR 0x27] @ ''?'',
        ''Apakah anak tertawa keras saat bermain atau diajak bercanda?'',
        ''Apakah anak mengenal orang asing (tampak malu atau marah)?'']),
      (9,
       [''Apakah anak dapat duduk sendiri tanpa bantuan minimal 1 menit?'',
        ''Apakah anak dapat merangkak maju (bukan mundur)?'',
        ''Apakah anak mengucapkan '' @ [CHR 0x27] @ ''mama'' @ [CHR 0x27] @ '' atau '' @ [CHR 0x27] @ ''papa'' @ [CHR 0x27] @ '' (meski berlebihan)?'',
        ''Apakah anak dapat meraih benda kecil dengan jempol dan telunjuk?'',
        ''Apakah anak dapat menirukan gerakan tepuk tangan?'']),
      (12,
       [''Apakah anak dapat berdiri sendiri minimal 5 detik tanpa berpegangan?'',
        ''Apakah anak dapat berjalan berpegangan pada furniture?'',
        ''Apakah anak dapat mengucapkan 2-3 kata yang bermakna?'',
        ''Apakah anak dapat minum dari cangkir sendiri?'',
        ''Apakah anak dapat menunjuk benda yang diinginkannya?'']),
      (15,
       [''Apakah anak dapat berjalan sendiri dengan stabil minimal 5 langkah?'',
        ''Apakah anak dapat minum dari gelas tanpa tumpah?'',
        ''Apakah anak dapat mengucapkan 4-6 kata dengan jelas?'',
        ''Apakah anak dapat menumpuk 2 kubus dengan stabil?'',
        ''Apakah anak dapat membantu melepas sepatunya sendiri?'']),
      (18,
       [''Apakah anak dapat berlari minimal 5 langkah berturut-turut?'',
        ''Apakah anak dapat naik tangga dengan bantuan pegangan?'',
        ''Apakah anak dapat mengucapkan 10-15 kata yang berbeda?'',
        ''Apakah anak dapat makan sendiri dengan sendok?'',
        ''Apakah anak dapat menunjuk minimal 2 bagian tubuhnya?'']),
      (21,
       [''Apakah anak dapat menendang bola ke depan tanpa jatuh?'',
        ''Apakah anak dapat naik tangga dengan 1 kaki bergantian?'',
        ''Apakah anak dapat mengucapkan kalimat 2-3 kata?'',
        ''Apakah anak dapat membalik halaman buku satu per satu?'',
        ''Apakah anak dapat mengikuti perintah sederhana 2 tahap?'']),
      (24,
       [''Apakah anak dapat melompat dengan 2 kaki bersamaan?'',
        ''Apakah anak dapat naik-turun tangga tanpa pegangan?'',
        ''Apakah anak dapat membuat kalimat 3-4 kata yang runtut?'',
        ''Apakah anak dapat menggambar garis vertikal setelah dicontohkan?'',
        ''Apakah anak dapat mengikuti perintah kompleks 3 tahap?''])]"

text \<open>
  The loop over \<^verbatim>\<open>sorted(KPSP_QUESTIONS.keys())\<close>: every key the age reaches
  overwrites \<^verbatim>\<open>age_group\<close>, which starts as \<^verbatim>\<open>None\<close>.
\<close>

definition find_age_group :: "(int \<times> 'a) list \<Rightarrow> real \<Rightarrow> int option" where
  "find_age_group table age_months =
     foldl (\<lambda>age_group age. if age_months \<ge> of_int age then Some age else age_group) None
       (sort (map fst table))"

text \<open>
  \<^verbatim>\<open>KPSP_QUESTIONS[age_group]\<close>. The handler looks up a key the loop has found, so the
  \<^verbatim>\<open>KeyError\<close> never arises; its text is left empty.
\<close>

definition py_lookup :: "(int \<times> 'a) list \<Rightarrow> int \<Rightarrow> exn + 'a" where
  "py_lookup table k =
     (case map_of table k of None \<Rightarrow> Inl (PyExn ''KeyError'' []) | Some v \<Rightarrow> Inr v)"

text \<open>
  The result, colour and recommendation for a score out of \<open>n\<close> questions. The source
  compares the score with the floats \<^verbatim>\<open>n * 0.8\<close> and \<^verbatim>\<open>n * 0.6\<close>; here the
  products are exact (as the floats are for the five questions of every band: 4.0 and 3.0).
\<close>

definition kpsp_result :: "nat \<Rightarrow> nat \<Rightarrow> string \<times> string \<times> string" where
  "kpsp_result score n =
     (if real score \<ge> real n * 0.8 then
        (''Perkembangan Sesuai Usia'', ''#4caf50'',
         ''Pertumbuhan dan perkembangan anak sesuai usia. Terus lakukan stimulasi.'')
      else if real score \<ge> real n * 0.6 then
        (''Perkembangan Terduga Terlambat'', ''#ff9800'',
         ''Perlu stimulasi intensif dan pemantauan lebih lanjut.'')
      else
        (''Perkembangan Terlambat'', ''#f44336'',
         ''Segera konsultasikan dengan dokter anak untuk evaluasi lebih lanjut.''))"

definition api_kpsp_evaluate_try :: "(string \<Rightarrow> real option) \<Rightarrow> json \<Rightarrow> exn + response" where
  "api_kpsp_evaluate_try float_str data =
     and_then (py_get data ''age_months'') (\<lambda>av.
     and_then (as_float float_str av) (\<lambda>age_months.
     and_then (py_get_default data ''answers'' (JArr [])) (\<lambda>answers.
       case age_months of
         None \<Rightarrow> Inr (error_response 400 ''Age is required'')
       | Some am \<Rightarrow>
           (case find_age_group KPSP_QUESTIONS am of
              None \<Rightarrow> Inr (error_response 400 ''No KPSP questions available for this age'')
            | Some age_group \<Rightarrow>
                and_then (py_lookup KPSP_QUESTIONS age_group) (\<lambda>questions.
                and_then (py_len answers) (\<lambda>n.
                  if n \<noteq> length questions
                  then Inr (error_response 400
                         (''Number of answers doesn'' @ [CHR 0x27] @ ''t match questions''))
                  else
                    and_then (py_iter answers) (\<lambda>items.
                      let score = length (filter truthy items);
                          (result, colour, recommendation) = kpsp_result score (length questions)
                      in Inr (jsonify
                           [(''age_group'', JInt age_group),
                            (''score'', JInt (int score)),
                            (''total_questions'', JInt (int (length questions))),
                            (''result'', JStr result),
                            (''color'', JStr colour),
                            (''recommendation'', JStr recommendation),
                            (''questions'', JArr (map JStr questions)),
                            (''answers'', answers)]))))))))"

definition api_kpsp_evaluate :: "(string \<Rightarrow> real option) \<Rightarrow> json \<Rightarrow> response" where
  "api_kpsp_evaluate float_str data =
     (case api_kpsp_evaluate_try float_str data of
        Inl e \<Rightarrow> error_response 500 (exn_str e)
      | Inr r \<Rightarrow> r)"

subsection \<open>The calculator as a relation\<close>

text \<open>
  The package behind \<^verbatim>\<open>calc\<close> is outside \<^verbatim>\<open>app.py\<close>: nothing in the source says
  that a method answers the same call twice in the same way (the object may keep state,
  or read a table that changes). In the relational view a method is the relation between
  its arguments and the outcomes a call may have, and \<^verbatim>\<open>calculate_z_score\<close> is the
  relation between its arguments and the values an invocation may return: \<^verbatim>\<open>None\<close>
  without a calculator, what the method returns, and \<^verbatim>\<open>None\<close> when it raises. The
  chain of comparisons is the one of \<open>z_score_lookup\<close>.
\<close>

record calculator_rel =
  wfa_rel :: "real \<Rightarrow> real \<Rightarrow> string \<Rightarrow> calc_result \<Rightarrow> bool"
  hfa_rel :: "real option \<Rightarrow> real \<Rightarrow> string \<Rightarrow> calc_result \<Rightarrow> bool"
  wfh_rel :: "real \<Rightarrow> real option \<Rightarrow> string \<Rightarrow> calc_result \<Rightarrow> bool"
  bfa_rel :: "real \<Rightarrow> real option \<Rightarrow> string \<Rightarrow> calc_result \<Rightarrow> bool"
  hcfa_rel :: "real \<Rightarrow> real \<Rightarrow> string \<Rightarrow> calc_result \<Rightarrow> bool"

definition z_score_lookup_rel ::
  "calculator_rel \<Rightarrow> real \<Rightarrow> real option \<Rightarrow> real \<Rightarrow> string \<Rightarrow> json \<Rightarrow> calc_result \<Rightarrow> bool" where
  "z_score_lookup_rel c w h a g t out =
     (if t = JStr ''wfa'' then wfa_rel c w a g out
      else if t = JStr ''hfa'' then hfa_rel c h a g out
      else if t = JStr ''wfh'' then wfh_rel c w h g out
      else if t = JStr ''bfa'' then bfa_rel c w h g out
      else if t = JStr ''hcfa'' then hcfa_rel c w a g out
      else out = Returns None)"

inductive calculate_z_score_yields ::
  "calculator_rel option \<Rightarrow> real \<Rightarrow> real option \<Rightarrow> real \<Rightarrow> string \<Rightarrow> json \<Rightarrow> real option \<Rightarrow> bool" where
  no_calculator: "calculate_z_score_yields None w h a g t None"
| returned: "z_score_lookup_rel c w h a g t (Returns z) \<Longrightarrow>
     calculate_z_score_yields (Some c) w h a g t z"
| raised: "z_score_lookup_rel c w h a g t (Raises e) \<Longrightarrow>
     calculate_z_score_yields (Some c) w h a g t None"


text \<open>A calculator whose methods are functions, seen as a relation.\<close>

definition graph_calc :: "calculator \<Rightarrow> calculator_rel" where
  "graph_calc c =
     \<lparr>wfa_rel = (\<lambda>x a g out. out = wfa c x a g),
      hfa_rel = (\<lambda>x a g out. out = hfa c x a g),
      wfh_rel = (\<lambda>x y g out. out = wfh c x y g),
      bfa_rel = (\<lambda>x y g out. out = bfa c x y g),
      hcfa_rel = (\<lambda>x a g out. out = hcfa c x a g)\<rparr>"

subsection \<open>Instances of the parameters, for the examples\<close>

text \<open>
  A calculator whose methods all return the same value, one whose methods all raise, and
  a conversion that accepts strings of decimal digits only.
\<close>

definition constant_calc :: "real option \<Rightarrow> calculator" where
  "constant_calc z =
     \<lparr>wfa = (\<lambda>_ _ _. Returns z), hfa = (\<lambda>_ _ _. Returns z), wfh = (\<lambda>_ _ _. Returns z),
      bfa = (\<lambda>_ _ _. Returns z), hcfa = (\<lambda>_ _ _. Returns z)\<rparr>"

definition raising_calc :: "exn \<Rightarrow> calculator" where
  "raising_calc e =
     \<lparr>wfa = (\<lambda>_ _ _. Raises e), hfa = (\<lambda>_ _ _. Raises e), wfh = (\<lambda>_ _ _. Raises e),
      bfa = (\<lambda>_ _ _. Raises e), hcfa = (\<lambda>_ _ _. Raises e)\<rparr>"

text \<open>A calculator that returns the second argument of each method.\<close>

definition echo_calc :: calculator where
  "echo_calc =
     \<lparr>wfa = (\<lambda>_ a _. Returns (Some a)), hfa = (\<lambda>_ a _. Returns (Some a)),
      wfh = (\<lambda>_ h _. Returns h), bfa = (\<lambda>_ h _. Returns h),
      hcfa = (\<lambda>_ a _. Returns (Some a))\<rparr>"

text \<open>A calculator whose weight-for-age may answer 0 or 1 to any call.\<close>

definition coin_calc :: calculator_rel where
  "coin_calc =
     (graph_calc echo_calc)
       \<lparr>wfa_rel := (\<lambda>_ _ _ out. out = Returns (Some 0) \<or> out = Returns (Some 1))\<rparr>"

definition digit_value :: "char \<Rightarrow> nat option" where
  "digit_value c = map_of (zip ''0123456789'' [0, 1, 2, 3, 4, 5, 6, 7, 8, 9]) c"

definition digits_float :: "string \<Rightarrow> real option" where
  "digits_float s =
     (if s \<noteq> [] \<and> list_all (\<lambda>c. digit_value c \<noteq> None) s
      then Some (real (foldl (\<lambda>n c. 10 * n + the (digit_value c)) 0 s))
      else None)"

section \<open>Properties\<close>

subsection \<open>Classification and validation\<close>

text \<open>
  C2. For every real z-score the category follows the thresholds, a boundary value
  falling into the lower category: below -3 severe_underweight, from -3 to below -2
  underweight, from -2 to 1 normal, above 1 to 2 risk_overweight, above 2 to 3
  overweight, above 3 obese. Each category is assigned exactly on its interval; -2.0 and
  1.0 are normal, -2.0001 is underweight and 1.0001 is risk_overweight.
\<close>

theorem classify_nutrition_thresholds:
  "(category (classify_nutrition (Some z)) = ''severe_underweight'') = (z < -3)
   \<and> (category (classify_nutrition (Some z)) = ''underweight'') = (-3 \<le> z \<and> z < -2)
   \<and> (category (classify_nutrition (Some z)) = ''normal'') = (-2 \<le> z \<and> z \<le> 1)
   \<and> (category (classify_nutrition (Some z)) = ''risk_overweight'') = (1 < z \<and> z \<le> 2)
   \<and> (category (classify_nutrition (Some z)) = ''overweight'') = (2 < z \<and> z \<le> 3)
   \<and> (category (classify_nutrition (Some z)) = ''obese'') = (3 < z)
   \<and> category (classify_nutrition (Some (-2.0))) = ''normal''
   \<and> category (classify_nutrition (Some (-2.0001))) = ''underweight''
   \<and> category (classify_nutrition (Some 1.0)) = ''normal''
   \<and> category (classify_nutrition (Some 1.0001)) = ''risk_overweight''"
  by (simp add: classify_nutrition_def)

text \<open>
  C5. For every pair of bounds, \<^verbatim>\<open>validate_measurement\<close> is false on \<^verbatim>\<open>None\<close>, false
  on a value outside the closed interval and true on a value inside it. So, the lower
  bound not exceeding the upper one, it is true at both bounds; and it is false one unit
  below the lower bound and one unit above the upper bound.
\<close>

theorem validate_measurement_bounds:
  "validate_measurement None (lo, hi) field_name = False
   \<and> validate_measurement (Some v) (lo, hi) field_name = (lo \<le> v \<and> v \<le> hi)
   \<and> (lo \<le> hi \<longrightarrow>
        validate_measurement (Some lo) (lo, hi) field_name
        \<and> validate_measurement (Some hi) (lo, hi) field_name)
   \<and> \<not> validate_measurement (Some (lo - 1)) (lo, hi) field_name
   \<and> \<not> validate_measurement (Some (hi + 1)) (lo, hi) field_name"
  by simp

text \<open>The bounds of weight-for-age, 1.0 to 30.0 kg, as an instance.\<close>

theorem validate_measurement_bounds_witness:
  "BOUNDS ''wfa'' = Some (1, 30)
   \<and> validate_measurement (Some 1) (1, 30) ''weight''
   \<and> validate_measurement (Some 30) (1, 30) ''weight''
   \<and> validate_measurement (Some 12.5) (1, 30) ''weight''
   \<and> \<not> validate_measurement (Some 0) (1, 30) ''weight''
   \<and> \<not> validate_measurement (Some 31) (1, 30) ''weight''
   \<and> \<not> validate_measurement None (1, 30) ''weight''"
  using validate_measurement_bounds
    [where lo = 1 and hi = 30 and v = "12.5" and field_name = "''weight''"]
  by (simp add: BOUNDS_def)

subsection \<open>The KPSP evaluator\<close>







lemma KPSP_keys: "map fst KPSP_QUESTIONS = [3, 6, 9, 12, 15, 18, 21, 24]"
  by (simp add: KPSP_QUESTIONS_def)

lemma KPSP_key_set: "fst ` set KPSP_QUESTIONS = {3, 6, 9, 12, 15, 18, 21, 24}"
  using KPSP_keys by (metis list.set_map list.simps(15) empty_set)


lemma KPSP_lengths: "list_all (\<lambda>kq. length (snd kq) = 5) KPSP_QUESTIONS"
  by (simp add: KPSP_QUESTIONS_def)

lemma KPSP_lookup:
  assumes "g \<in> fst ` set KPSP_QUESTIONS"
  shows "\<exists>qs. map_of KPSP_QUESTIONS g = Some qs \<and> length qs = 5"
proof -
  from assms obtain qs where m: "map_of KPSP_QUESTIONS g = Some qs"
    by (metis map_of_eq_None_iff not_None_eq)
  then have "(g, qs) \<in> set KPSP_QUESTIONS" by (rule map_of_SomeD)
  with KPSP_lengths have "length qs = 5" by (auto simp: list_all_iff)
  with m show ?thesis by blast
qed




lemma kpsp_result_nat:
  "fst (kpsp_result score n) =
     (if 4 * n \<le> 5 * score then ''Perkembangan Sesuai Usia''
      else if 3 * n \<le> 5 * score then ''Perkembangan Terduga Terlambat''
      else ''Perkembangan Terlambat'')"
proof -
  have a: "real n * 0.8 \<le> real score \<longleftrightarrow> 4 * n \<le> 5 * score"
  proof -
    have "real n * 0.8 \<le> real score \<longleftrightarrow> real (4 * n) \<le> real (5 * score)"
      by (simp add: mult.commute)
    then show ?thesis by (simp only: of_nat_le_iff)
  qed
  have b: "real n * 0.6 \<le> real score \<longleftrightarrow> 3 * n \<le> 5 * score"
  proof -
    have "real n * 0.6 \<le> real score \<longleftrightarrow> real (3 * n) \<le> real (5 * score)"
      by (simp add: mult.commute)
    then show ?thesis by (simp only: of_nat_le_iff)
  qed
  show ?thesis unfolding kpsp_result_def a b by simp
qed

lemma api_kpsp_evaluate_band:
  assumes "py_get data ''age_months'' = Inr av"
    and "as_float float_str av = Inr (Some a)"
    and "py_get_default data ''answers'' (JArr []) = Inr ans"
  shows "api_kpsp_evaluate float_str data =
     (case find_age_group KPSP_QUESTIONS a of
        None \<Rightarrow> error_response 400 ''No KPSP questions available for this age''
      | Some g \<Rightarrow>
          (case map_of KPSP_QUESTIONS g of
             None \<Rightarrow> error_response 500 []
           | Some qs \<Rightarrow>
               (case py_len ans of
                  Inl e \<Rightarrow> error_response 500 (exn_str e)
                | Inr n \<Rightarrow>
                    if n \<noteq> length qs
                    then error_response 400
                           (''Number of answers doesn'' @ [CHR 0x27] @ ''t match questions'')
                    else (case py_iter ans of
                            Inl e \<Rightarrow> error_response 500 (exn_str e)
                          | Inr items \<Rightarrow>
                              jsonify
                                [(''age_group'', JInt g),
                                 (''score'', JInt (int (length (filter truthy items)))),
                                 (''total_questions'', JInt (int (length qs))),
                                 (''result'', JStr (fst (kpsp_result (length (filter truthy items)) (length qs)))),
                                 (''color'', JStr (fst (snd (kpsp_result (length (filter truthy items)) (length qs))))),
                                 (''recommendation'', JStr (snd (snd (kpsp_result (length (filter truthy items)) (length qs))))),
                                 (''questions'', JArr (map JStr qs)),
                                 (''answers'', ans)]))))"
  using assms
  by (simp add: api_kpsp_evaluate_def api_kpsp_evaluate_try_def and_then_def py_lookup_def
      Let_def split_beta split: option.splits sum.splits)

lemma KPSP_length:
  assumes "map_of KPSP_QUESTIONS g = Some qs"
  shows "length qs = 5"
proof -
  from assms have "(g, qs) \<in> set KPSP_QUESTIONS" by (rule map_of_SomeD)
  with KPSP_lengths show ?thesis by (auto simp: list_all_iff)
qed



text \<open>
  C7. For a valid submission (a list of as many answers as the band has questions) the
  score is the number of answers that count as true, for a list of booleans the number
  of \<^verbatim>\<open>True\<close>; the result is \<^verbatim>\<open>Perkembangan Sesuai Usia\<close> from 80 percent of the
  question count on, \<^verbatim>\<open>Perkembangan Terduga Terlambat\<close> from 60 percent on and
  \<^verbatim>\<open>Perkembangan Terlambat\<close> below. Every band has five questions, so that five yes
  answers give the first result and two give the last.
\<close>

theorem kpsp_score_and_result:
  assumes "py_get data ''age_months'' = Inr av"
    and "as_float float_str av = Inr (Some a)"
    and "py_get_default data ''answers'' (JArr []) = Inr (JArr xs)"
    and "find_age_group KPSP_QUESTIONS a = Some g"
    and "map_of KPSP_QUESTIONS g = Some qs"
    and "length xs = length qs"
  shows "fst (api_kpsp_evaluate float_str data) = 200
    \<and> body_field (api_kpsp_evaluate float_str data) ''score''
        = Some (JInt (int (length (filter truthy xs))))
    \<and> (\<forall>bs. xs = map JBool bs \<longrightarrow> length (filter truthy xs) = count_list bs True)
    \<and> body_field (api_kpsp_evaluate float_str data) ''total_questions''
        = Some (JInt (int (length qs)))
    \<and> body_field (api_kpsp_evaluate float_str data) ''result''
        = Some (JStr
            (if 4 * length qs \<le> 5 * length (filter truthy xs) then ''Perkembangan Sesuai Usia''
             else if 3 * length qs \<le> 5 * length (filter truthy xs)
             then ''Perkembangan Terduga Terlambat''
             else ''Perkembangan Terlambat''))
    \<and> length qs = 5
    \<and> (length (filter truthy xs) = 5 \<longrightarrow>
         body_field (api_kpsp_evaluate float_str data) ''result''
           = Some (JStr ''Perkembangan Sesuai Usia''))
    \<and> (length (filter truthy xs) = 2 \<longrightarrow>
         body_field (api_kpsp_evaluate float_str data) ''result''
           = Some (JStr ''Perkembangan Terlambat''))"
proof -
  have n: "length qs = 5" using assms(5) by (rule KPSP_length)
  have r: "api_kpsp_evaluate float_str data =
      jsonify
        [(''age_group'', JInt g),
         (''score'', JInt (int (length (filter truthy xs)))),
         (''total_questions'', JInt (int (length qs))),
         (''result'', JStr (fst (kpsp_result (length (filter truthy xs)) (length qs)))),
         (''color'', JStr (fst (snd (kpsp_result (length (filter truthy xs)) (length qs))))),
         (''recommendation'', JStr (snd (snd (kpsp_result (length (filter truthy xs)) (length qs))))),
         (''questions'', JArr (map JStr qs)),
         (''answers'', JArr xs)]"
    by (simp add: api_kpsp_evaluate_band [OF assms(1-3)] assms(4-6))
  have c: "length (filter truthy (map JBool bs)) = count_list bs True" for bs
    by (induction bs) simp_all
  show ?thesis
    unfolding r using n c
    by (simp add: jsonify_def body_field_def kpsp_result_nat)
qed

text \<open>The 12-month band with five yes answers, and with two.\<close>

theorem kpsp_score_and_result_witness:
  "fst (api_kpsp_evaluate digits_float
      (JObj [(''age_months'', JInt 12),
             (''answers'', JArr [JBool True, JBool True, JBool True, JBool True, JBool True])]))
     = 200
   \<and> body_field (api_kpsp_evaluate digits_float
      (JObj [(''age_months'', JInt 12),
             (''answers'', JArr [JBool True, JBool True, JBool True, JBool True, JBool True])]))
      ''score'' = Some (JInt 5)
   \<and> body_field (api_kpsp_evaluate digits_float
      (JObj [(''age_months'', JInt 12),
             (''answers'', JArr [JBool True, JBool True, JBool True, JBool True, JBool True])]))
      ''result'' = Some (JStr ''Perkembangan Sesuai Usia'')
   \<and> body_field (api_kpsp_evaluate digits_float
      (JObj [(''age_months'', JInt 12),
             (''answers'', JArr [JBool True, JBool False, JBool False, JBool True, JBool False])]))
      ''score'' = Some (JInt 2)
   \<and> body_field (api_kpsp_evaluate digits_float
      (JObj [(''age_months'', JInt 12),
             (''answers'', JArr [JBool True, JBool False, JBool False, JBool True, JBool False])]))
      ''result'' = Some (JStr ''Perkembangan Terlambat'')"
proof -
  let ?x5 = "[JBool True, JBool True, JBool True, JBool True, JBool True]"
  let ?x2 = "[JBool True, JBool False, JBool False, JBool True, JBool False]"
  let ?d5 = "JObj [(''age_months'', JInt 12), (''answers'', JArr ?x5)]"
  let ?d2 = "JObj [(''age_months'', JInt 12), (''answers'', JArr ?x2)]"
  have f: "as_float digits_float (JInt 12) = Inr (Some 12)" by (simp add: float_int_limit_def)
  have g: "find_age_group KPSP_QUESTIONS 12 = Some 12"
    by (simp add: find_age_group_def KPSP_keys)
  have "12 \<in> fst ` set KPSP_QUESTIONS" by (simp add: KPSP_key_set)
  then obtain qs where q: "map_of KPSP_QUESTIONS 12 = Some qs" and n: "length qs = 5"
    using KPSP_lookup by blast
  have a5: "py_get ?d5 ''age_months'' = Inr (JInt 12)" by (simp add: py_get_def)
  have c5: "py_get_default ?d5 ''answers'' (JArr []) = Inr (JArr ?x5)" by simp
  have l5: "length ?x5 = length qs" using n by simp
  have a2: "py_get ?d2 ''age_months'' = Inr (JInt 12)" by (simp add: py_get_def)
  have c2: "py_get_default ?d2 ''answers'' (JArr []) = Inr (JArr ?x2)" by simp
  have l2: "length ?x2 = length qs" using n by simp
  from kpsp_score_and_result [OF a5 f c5 g q l5] kpsp_score_and_result [OF a2 f c2 g q l2]
  show ?thesis by (simp add: n)
qed

subsection \<open>The z-score endpoint\<close>

text \<open>
  What the first part of the handler yields: on a body that is not an object the
  exception of \<^verbatim>\<open>data.get\<close>; on an object the outcome of the four conversions and the
  two checks.
\<close>

lemma py_get_Inr_iff:
  "py_get_default data k d = Inr v \<longleftrightarrow>
     (\<exists>kvs. data = JObj kvs \<and> v = (case map_of kvs k of None \<Rightarrow> d | Some x \<Rightarrow> x))"
  by (cases data) auto

lemma inputs_not_object:
  assumes "\<forall>kvs. data \<noteq> JObj kvs"
  shows "api_calculate_zscore_inputs float_str data = Inl (no_attribute data ''get'')"
  using assms
  by (cases data) (simp_all add: api_calculate_zscore_inputs_def and_then_def py_get_def)

lemma inputs_object:
  "api_calculate_zscore_inputs float_str (JObj kvs) =
     (case as_float float_str (case map_of kvs ''weight'' of None \<Rightarrow> JNull | Some x \<Rightarrow> x) of
        Inl e \<Rightarrow> Inl e
      | Inr w \<Rightarrow>
     (case as_float float_str (case map_of kvs ''height'' of None \<Rightarrow> JNull | Some x \<Rightarrow> x) of
        Inl e \<Rightarrow> Inl e
      | Inr h \<Rightarrow>
     (case as_float float_str (case map_of kvs ''age_months'' of None \<Rightarrow> JNull | Some x \<Rightarrow> x) of
        Inl e \<Rightarrow> Inl e
      | Inr a \<Rightarrow>
     (case upper (case map_of kvs ''gender'' of None \<Rightarrow> JStr ''M'' | Some x \<Rightarrow> x) of
        Inl e \<Rightarrow> Inl e
      | Inr g \<Rightarrow>
          if w = None \<or> a = None
          then Inr (Reject (error_response 400 ''Weight and age are required''))
          else if g \<noteq> ''M'' \<and> g \<noteq> ''F''
          then Inr (Reject (error_response 400 ''Gender must be M or F''))
          else Inr (Accept \<lparr>arg_weight = the w, arg_height = h, arg_age_months = the a,
                 arg_gender = g,
                 arg_type = (case map_of kvs ''type'' of None \<Rightarrow> JStr ''wfa'' | Some x \<Rightarrow> x)\<rparr>)))))"
  by (auto simp add: api_calculate_zscore_inputs_def and_then_def py_get_def split: sum.splits)


lemma inputs_Accept_iff:
  "api_calculate_zscore_inputs float_str data = Inr (Accept args) \<longleftrightarrow>
     (\<exists>wv hv av gv tv.
        py_get data ''weight'' = Inr wv \<and> as_float float_str wv = Inr (Some (arg_weight args))
        \<and> py_get data ''height'' = Inr hv \<and> as_float float_str hv = Inr (arg_height args)
        \<and> py_get data ''age_months'' = Inr av
        \<and> as_float float_str av = Inr (Some (arg_age_months args))
        \<and> py_get_default data ''gender'' (JStr ''M'') = Inr gv \<and> upper gv = Inr (arg_gender args)
        \<and> (arg_gender args = ''M'' \<or> arg_gender args = ''F'')
        \<and> py_get_default data ''type'' (JStr ''wfa'') = Inr tv \<and> arg_type args = tv)"
proof (cases "\<exists>kvs. data = JObj kvs")
  case False
  then have "\<forall>kvs. data \<noteq> JObj kvs" by blast
  then show ?thesis
    by (simp add: inputs_not_object py_get_def py_get_Inr_iff)
next
  case True
  then obtain kvs where d: "data = JObj kvs" by blast
  show ?thesis
    unfolding d inputs_object
    by (cases args) (auto simp add: py_get_def split: sum.splits option.splits)
qed


lemma inputs_Reject_iff:
  "(\<exists>r. api_calculate_zscore_inputs float_str data = Inr (Reject r)) \<longleftrightarrow>
     (\<exists>wv hv av gv w h a g.
        py_get data ''weight'' = Inr wv \<and> as_float float_str wv = Inr w
        \<and> py_get data ''height'' = Inr hv \<and> as_float float_str hv = Inr h
        \<and> py_get data ''age_months'' = Inr av \<and> as_float float_str av = Inr a
        \<and> py_get_default data ''gender'' (JStr ''M'') = Inr gv \<and> upper gv = Inr g
        \<and> (w = None \<or> a = None \<or> (g \<noteq> ''M'' \<and> g \<noteq> ''F'')))"
proof (cases "\<exists>kvs. data = JObj kvs")
  case False
  then have "\<forall>kvs. data \<noteq> JObj kvs" by blast
  then show ?thesis
    by (simp add: inputs_not_object py_get_def py_get_Inr_iff)
next
  case True
  then obtain kvs where d: "data = JObj kvs" by blast
  show ?thesis
    unfolding d inputs_object
    by (auto simp add: py_get_def split: sum.splits option.splits)
qed

lemma inputs_Reject:
  assumes "api_calculate_zscore_inputs float_str data = Inr (Reject r)"
  shows "r = error_response 400 ''Weight and age are required''
       \<or> r = error_response 400 ''Gender must be M or F''"
proof (cases "\<exists>kvs. data = JObj kvs")
  case False
  then have "\<forall>kvs. data \<noteq> JObj kvs" by blast
  with assms show ?thesis by (simp add: inputs_not_object)
next
  case True
  then obtain kvs where d: "data = JObj kvs" by blast
  from assms show ?thesis
    unfolding d inputs_object
    by (auto split: sum.splits if_splits)
qed

lemma zscore_response_status:
  "fst (zscore_response args z) = (if z = None then 500 else 200)"
  by (simp add: zscore_response_def error_response_def jsonify_def split: option.splits)

lemma api_status_400_iff:
  "fst (fst (api_calculate_zscore float_str s data)) = 400
   \<longleftrightarrow> (\<exists>r. api_calculate_zscore_inputs float_str data = Inr (Reject r))"
proof (cases "api_calculate_zscore_inputs float_str data")
  case (Inl e)
  then show ?thesis by (simp add: api_calculate_zscore_def error_response_def)
next
  case (Inr c)
  show ?thesis
  proof (cases c)
    case (Reject r)
    with Inr inputs_Reject [of float_str data r] show ?thesis
      by (auto simp add: api_calculate_zscore_def error_response_def)
  next
    case (Accept args)
    with Inr show ?thesis
      by (simp add: api_calculate_zscore_def zscore_response_status split: prod.splits)
  qed
qed

lemma round_half_even_near: "\<bar>of_int (round_half_even x) - x\<bar> \<le> 1 / 2"
proof -
  have "of_int \<lfloor>x\<rfloor> \<le> x" and "x < of_int \<lfloor>x\<rfloor> + 1" by linarith+
  then show ?thesis by (auto simp add: round_half_even_def Let_def)
qed

lemma py_round_2:
  "\<bar>py_round z 2 - z\<bar> \<le> 1 / 200 \<and> (\<exists>k :: int. py_round z 2 = of_int k / 100)"
proof -
  have "\<bar>of_int (round_half_even (z * 100)) - z * 100\<bar> \<le> 1 / 2"
    by (rule round_half_even_near)
  then have "\<bar>of_int (round_half_even (z * 100)) / 100 - z\<bar> \<le> 1 / 200" by (simp add: field_simps abs_le_iff)
  then show ?thesis by (auto simp add: py_round_def)
qed


text \<open>
  C1, as stated, fails: \<^verbatim>\<open>validate_measurement\<close> has no caller. A weight of 100 kg is
  outside the bounds of weight-for-age, yet the handler passes it to
  \<^verbatim>\<open>calculate_z_score\<close> and answers 200 with the z-score the calculator returns.
\<close>

theorem zscore_bounds_not_checked:
  "BOUNDS ''wfa'' = Some (1, 30)
   \<and> \<not> validate_measurement (Some 100) (1, 30) ''weight''
   \<and> api_calculate_zscore_inputs digits_float
        (JObj [(''weight'', JFloat 100), (''age_months'', JInt 12), (''gender'', JStr ''M''),
               (''type'', JStr ''wfa'')])
      = Inr (Accept \<lparr>arg_weight = 100, arg_height = None, arg_age_months = 12,
                      arg_gender = ''M'', arg_type = JStr ''wfa''\<rparr>)
   \<and> fst (api_calculate_zscore digits_float
        \<lparr>calc = Some (constant_calc (Some 0.125)), stdout = []\<rparr>
        (JObj [(''weight'', JFloat 100), (''age_months'', JInt 12), (''gender'', JStr ''M''),
               (''type'', JStr ''wfa'')]))
      = jsonify
          [(''z_score'', JFloat 0.12),
           (''classification'',
            JObj [(''status'', JStr ''Gizi Baik''), (''color'', JStr ''#388e3c''),
                  (''category'', JStr ''normal'')]),
           (''measurement_type'', JStr ''wfa''),
           (''inputs'',
            JObj [(''weight'', JFloat 100), (''height'', JNull), (''age_months'', JFloat 12),
                  (''gender'', JStr ''M'')])]"
  by (simp add: BOUNDS_def inputs_object api_calculate_zscore_def upper_char_def
      float_int_limit_def calculate_z_score_def z_score_lookup_def constant_calc_def
      zscore_response_def classify_nutrition_def classification_json_def json_of_option_def
      py_round_def round_half_even_def Let_def)

text \<open>
  C1, amended. \<^verbatim>\<open>calculate_z_score\<close> is invoked exactly on the requests that pass the
  handler's own reads and checks: the body is an object, \<^verbatim>\<open>weight\<close> and
  \<^verbatim>\<open>age_months\<close> convert to numbers, \<^verbatim>\<open>height\<close> converts without an exception (to
  a number or to \<^verbatim>\<open>None\<close>; an integer beyond the range of a float raises), and
  \<^verbatim>\<open>gender\<close> (\<^verbatim>\<open>M\<close> when absent) is a string that is \<^verbatim>\<open>M\<close> or \<^verbatim>\<open>F\<close> once
  uppercased. It is invoked on those values whatever their size: no bound is applied, so
  that every pair of a weight and an age reaches it. Every other request is answered 400
  or 500 without the calculator, the process state unchanged.
\<close>

theorem zscore_engine_invoked_iff:
  "(api_calculate_zscore_inputs float_str data = Inr (Accept args)) =
     (\<exists>wv hv av gv tv.
        py_get data ''weight'' = Inr wv \<and> as_float float_str wv = Inr (Some (arg_weight args))
        \<and> py_get data ''height'' = Inr hv \<and> as_float float_str hv = Inr (arg_height args)
        \<and> py_get data ''age_months'' = Inr av
        \<and> as_float float_str av = Inr (Some (arg_age_months args))
        \<and> py_get_default data ''gender'' (JStr ''M'') = Inr gv \<and> upper gv = Inr (arg_gender args)
        \<and> (arg_gender args = ''M'' \<or> arg_gender args = ''F'')
        \<and> py_get_default data ''type'' (JStr ''wfa'') = Inr tv \<and> arg_type args = tv)
   \<and> api_calculate_zscore_inputs float_str
         (JObj [(''weight'', JFloat w), (''age_months'', JFloat a)])
       = Inr (Accept \<lparr>arg_weight = w, arg_height = None, arg_age_months = a,
                       arg_gender = ''M'', arg_type = JStr ''wfa''\<rparr>)
   \<and> (api_calculate_zscore_inputs float_str data = Inr (Accept args) \<longrightarrow>
        api_calculate_zscore float_str s data =
          (zscore_response args
             (fst (calculate_z_score s (arg_weight args) (arg_height args)
                (arg_age_months args) (arg_gender args) (arg_type args))),
           snd (calculate_z_score s (arg_weight args) (arg_height args)
                (arg_age_months args) (arg_gender args) (arg_type args))))
   \<and> ((\<forall>x. api_calculate_zscore_inputs float_str data \<noteq> Inr (Accept x)) \<longrightarrow>
        snd (api_calculate_zscore float_str s data) = s
        \<and> fst (api_calculate_zscore float_str s data)
            = fst (api_calculate_zscore float_str s' data)
        \<and> fst (fst (api_calculate_zscore float_str s data)) \<in> {400, 500})"
proof (intro conjI impI)
  show "(api_calculate_zscore_inputs float_str data = Inr (Accept args)) =
     (\<exists>wv hv av gv tv.
        py_get data ''weight'' = Inr wv \<and> as_float float_str wv = Inr (Some (arg_weight args))
        \<and> py_get data ''height'' = Inr hv \<and> as_float float_str hv = Inr (arg_height args)
        \<and> py_get data ''age_months'' = Inr av
        \<and> as_float float_str av = Inr (Some (arg_age_months args))
        \<and> py_get_default data ''gender'' (JStr ''M'') = Inr gv \<and> upper gv = Inr (arg_gender args)
        \<and> (arg_gender args = ''M'' \<or> arg_gender args = ''F'')
        \<and> py_get_default data ''type'' (JStr ''wfa'') = Inr tv \<and> arg_type args = tv)"
    by (rule inputs_Accept_iff)
next
  show "api_calculate_zscore_inputs float_str
         (JObj [(''weight'', JFloat w), (''age_months'', JFloat a)])
       = Inr (Accept \<lparr>arg_weight = w, arg_height = None, arg_age_months = a,
                       arg_gender = ''M'', arg_type = JStr ''wfa''\<rparr>)"
    by (simp add: inputs_object upper_char_def)
next
  assume "api_calculate_zscore_inputs float_str data = Inr (Accept args)"
  then show "api_calculate_zscore float_str s data =
          (zscore_response args
             (fst (calculate_z_score s (arg_weight args) (arg_height args)
                (arg_age_months args) (arg_gender args) (arg_type args))),
           snd (calculate_z_score s (arg_weight args) (arg_height args)
                (arg_age_months args) (arg_gender args) (arg_type args)))"
    by (simp add: api_calculate_zscore_def split: prod.splits)
next
  assume n: "\<forall>x. api_calculate_zscore_inputs float_str data \<noteq> Inr (Accept x)"
  show "snd (api_calculate_zscore float_str s data) = s"
    using n by (auto simp add: api_calculate_zscore_def split: sum.splits checked.splits)
  show "fst (api_calculate_zscore float_str s data) = fst (api_calculate_zscore float_str s' data)"
    using n by (auto simp add: api_calculate_zscore_def split: sum.splits checked.splits)
  show "fst (fst (api_calculate_zscore float_str s data)) \<in> {400, 500}"
    using n inputs_Reject [of float_str data]
    by (auto simp add: api_calculate_zscore_def error_response_def split: sum.splits checked.splits)
qed

text \<open>A request that reaches the calculator, and one rejected before it.\<close>

theorem zscore_engine_invoked_iff_witness:
  "api_calculate_zscore digits_float \<lparr>calc = Some (constant_calc None), stdout = []\<rparr>
       (JObj [(''weight'', JFloat 100), (''age_months'', JFloat 12)])
     = (error_response 500 ''Could not calculate z-score'',
        \<lparr>calc = Some (constant_calc None), stdout = []\<rparr>)
   \<and> api_calculate_zscore digits_float \<lparr>calc = Some (constant_calc None), stdout = []\<rparr>
       (JObj [(''weight'', JStr ''heavy''), (''age_months'', JFloat 12)])
     = (error_response 400 ''Weight and age are required'',
        \<lparr>calc = Some (constant_calc None), stdout = []\<rparr>)"
proof -
  let ?s = "\<lparr>calc = Some (constant_calc None), stdout = []\<rparr>"
  let ?d = "JObj [(''weight'', JFloat 100), (''age_months'', JFloat 12)]"
  let ?r = "JObj [(''weight'', JStr ''heavy''), (''age_months'', JFloat 12)]"
  let ?args = "\<lparr>arg_weight = 100, arg_height = None, arg_age_months = 12,
                 arg_gender = ''M'', arg_type = JStr ''wfa''\<rparr>"
  have acc: "api_calculate_zscore_inputs digits_float ?d = Inr (Accept ?args)"
    by (simp add: inputs_object upper_char_def)
  have rej: "api_calculate_zscore_inputs digits_float ?r
      = Inr (Reject (error_response 400 ''Weight and age are required''))"
    by (simp add: inputs_object upper_char_def digits_float_def digit_value_def)
  then have no: "\<forall>x. api_calculate_zscore_inputs digits_float ?r \<noteq> Inr (Accept x)" by simp
  from zscore_engine_invoked_iff [of digits_float ?d ?args 100 12 ?s ?s] acc
  have one: "api_calculate_zscore digits_float ?s ?d
      = (error_response 500 ''Could not calculate z-score'', ?s)"
    by (simp add: calculate_z_score_def z_score_lookup_def constant_calc_def
        zscore_response_def)
  from zscore_engine_invoked_iff [of digits_float ?r ?args 100 12 ?s ?s] no
  have "snd (api_calculate_zscore digits_float ?s ?r) = ?s" by blast
  moreover have "fst (api_calculate_zscore digits_float ?s ?r)
      = error_response 400 ''Weight and age are required''"
    using rej by (simp add: api_calculate_zscore_def)
  ultimately have two: "api_calculate_zscore digits_float ?s ?r
      = (error_response 400 ''Weight and age are required'', ?s)"
    by (simp add: prod_eq_iff)
  from one two show ?thesis by simp
qed

text \<open>
  A height that is an integer beyond the range of a float: the conversion raises, and the
  request is answered 500 without the calculator, weight, age and gender being in order.
\<close>

lemma height_overflow_answered_500:
  "api_calculate_zscore float_str s
     (JObj [(''weight'', JFloat 9.5), (''height'', JInt (10 ^ 400)), (''age_months'', JInt 12),
            (''gender'', JStr ''M'')])
   = (error_response 500 ''int too large to convert to float'', s)"
  by (simp add: api_calculate_zscore_def inputs_object float_int_limit_def)

text \<open>
  C3, as stated, fails: an unknown index kind and a calculator exception on a supported
  kind both give \<^verbatim>\<open>None\<close>, and the endpoint answers both with the same response.
\<close>

theorem failure_kinds_not_distinguished:
  "fst (calculate_z_score
          \<lparr>calc = Some (raising_calc (PyExn ''InvalidAge'' ''age out of range'')), stdout = []\<rparr>
          9.5 None 12 ''M'' (JStr ''xyz''))
     = fst (calculate_z_score
          \<lparr>calc = Some (raising_calc (PyExn ''InvalidAge'' ''age out of range'')), stdout = []\<rparr>
          9.5 None 12 ''M'' (JStr ''wfa''))
   \<and> fst (api_calculate_zscore digits_float
          \<lparr>calc = Some (raising_calc (PyExn ''InvalidAge'' ''age out of range'')), stdout = []\<rparr>
          (JObj [(''weight'', JFloat 9.5), (''age_months'', JInt 12), (''gender'', JStr ''M''),
                 (''type'', JStr ''xyz'')]))
     = error_response 500 ''Could not calculate z-score''
   \<and> fst (api_calculate_zscore digits_float
          \<lparr>calc = Some (raising_calc (PyExn ''InvalidAge'' ''age out of range'')), stdout = []\<rparr>
          (JObj [(''weight'', JFloat 9.5), (''age_months'', JInt 12), (''gender'', JStr ''M''),
                 (''type'', JStr ''wfa'')]))
     = error_response 500 ''Could not calculate z-score''"
  by (simp add: inputs_object api_calculate_zscore_def upper_char_def
      float_int_limit_def calculate_z_score_def z_score_lookup_def raising_calc_def
      zscore_response_def)

text \<open>
  C3, amended. For an index kind that is none of \<^verbatim>\<open>wfa\<close>, \<^verbatim>\<open>hfa\<close>, \<^verbatim>\<open>wfh\<close>,
  \<^verbatim>\<open>bfa\<close>, \<^verbatim>\<open>hcfa\<close>, \<^verbatim>\<open>calculate_z_score\<close> returns \<^verbatim>\<open>None\<close>; when the
  calculator raises, which happens on a supported kind only, it returns \<^verbatim>\<open>None\<close> as
  well; and the endpoint answers every \<^verbatim>\<open>None\<close> with 500 and the one message
  \<^verbatim>\<open>Could not calculate z-score\<close>.
\<close>

theorem failures_return_None:
  "(t \<notin> set [JStr ''wfa'', JStr ''hfa'', JStr ''wfh'', JStr ''bfa'', JStr ''hcfa''] \<longrightarrow>
      fst (calculate_z_score s w h a g t) = None)
   \<and> (calc s = Some c \<and> z_score_lookup c w h a g t = Raises e \<longrightarrow>
        t \<in> set [JStr ''wfa'', JStr ''hfa'', JStr ''wfh'', JStr ''bfa'', JStr ''hcfa'']
        \<and> fst (calculate_z_score s w h a g t) = None)
   \<and> (api_calculate_zscore_inputs float_str data = Inr (Accept args)
        \<and> fst (calculate_z_score s (arg_weight args) (arg_height args) (arg_age_months args)
              (arg_gender args) (arg_type args)) = None \<longrightarrow>
        fst (api_calculate_zscore float_str s data)
          = error_response 500 ''Could not calculate z-score'')"
  by (auto simp add: calculate_z_score_def z_score_lookup_def api_calculate_zscore_def
      zscore_response_def split: option.splits calc_result.splits prod.splits if_splits)

text \<open>An unknown kind with a working calculator, and a supported kind with a failing one.\<close>

theorem failures_return_None_witness:
  "fst (calculate_z_score \<lparr>calc = Some (constant_calc (Some 1)), stdout = []\<rparr>
          9.5 None 12 ''M'' (JStr ''xyz'')) = None
   \<and> fst (calculate_z_score
          \<lparr>calc = Some (raising_calc (PyExn ''InvalidAge'' ''age out of range'')), stdout = []\<rparr>
          9.5 None 12 ''M'' (JStr ''hfa'')) = None"
proof -
  let ?e = "PyExn ''InvalidAge'' ''age out of range''"
  have u: "JStr ''xyz'' \<notin> set [JStr ''wfa'', JStr ''hfa'', JStr ''wfh'', JStr ''bfa'', JStr ''hcfa'']"
    by simp
  have c: "calc \<lparr>calc = Some (raising_calc ?e), stdout = []\<rparr> = Some (raising_calc ?e)
      \<and> z_score_lookup (raising_calc ?e) 9.5 None 12 ''M'' (JStr ''hfa'') = Raises ?e"
    by (simp add: z_score_lookup_def raising_calc_def)
  from failures_return_None
    [of "JStr ''xyz''" "\<lparr>calc = Some (constant_calc (Some 1)), stdout = []\<rparr>" "9.5" None 12 "''M''"]
    u
  have one: "fst (calculate_z_score \<lparr>calc = Some (constant_calc (Some 1)), stdout = []\<rparr>
          9.5 None 12 ''M'' (JStr ''xyz'')) = None"
    by blast
  from failures_return_None
    [of "JStr ''hfa''" "\<lparr>calc = Some (raising_calc ?e), stdout = []\<rparr>" "9.5" None 12 "''M''"
        "raising_calc ?e" ?e] c
  have two: "fst (calculate_z_score \<lparr>calc = Some (raising_calc ?e), stdout = []\<rparr>
          9.5 None 12 ''M'' (JStr ''hfa'')) = None"
    by blast
  from one two show ?thesis by simp
qed








text \<open>
  Determinism is a property of the calculator, not of the model: with a calculator that
  may answer in two ways, two invocations on the same arguments may differ.
\<close>

lemma coin_calc_two_results:
  "calculate_z_score_yields (Some coin_calc) 9.5 None 12 ''M'' (JStr ''wfa'') (Some 0)
   \<and> calculate_z_score_yields (Some coin_calc) 9.5 None 12 ''M'' (JStr ''wfa'') (Some 1)"
  by (auto intro!: calculate_z_score_yields.returned
      simp add: z_score_lookup_rel_def coin_calc_def)



text \<open>An exception while the fields are read is answered 500; a gender that is not a string raises.\<close>

lemma inputs_Inl_status:
  assumes "api_calculate_zscore_inputs float_str data = Inl e"
  shows "fst (api_calculate_zscore float_str s data) = error_response 500 (exn_str e)"
  using assms by (simp add: api_calculate_zscore_def)

lemma gender_not_string:
  assumes "py_get_default data ''gender'' (JStr ''M'') = Inr gv" and "\<forall>x. gv \<noteq> JStr x"
  shows "\<exists>e. api_calculate_zscore_inputs float_str data = Inl e"
proof -
  from assms(1) obtain kvs where d: "data = JObj kvs"
    and gv: "gv = (case map_of kvs ''gender'' of None \<Rightarrow> JStr ''M'' | Some x \<Rightarrow> x)"
    by (auto simp add: py_get_Inr_iff)
  from assms(2) have "\<exists>e. upper gv = Inl e" by (cases gv) simp_all
  then show ?thesis
    unfolding d inputs_object gv by (auto split: sum.splits)
qed

text \<open>
  C4, as stated, fails: in the body \<^verbatim>\<open>{"age_months": 12, "gender": 5}\<close> the weight is
  missing and the gender is not \<^verbatim>\<open>M\<close> or \<^verbatim>\<open>F\<close>, yet the answer is 500, not 400:
  \<^verbatim>\<open>.upper()\<close> raises on the number before either check runs.
\<close>

theorem missing_weight_answered_500:
  "py_get (JObj [(''age_months'', JInt 12), (''gender'', JInt 5)]) ''weight'' = Inr JNull
   \<and> fst (api_calculate_zscore digits_float
          \<lparr>calc = Some (constant_calc (Some 0)), stdout = []\<rparr>
          (JObj [(''age_months'', JInt 12), (''gender'', JInt 5)]))
     = (500, JObj [(''error'',
          JStr (quoted ''int'' @ '' object has no attribute '' @ quoted ''upper''))])"
  by (simp add: py_get_def inputs_object api_calculate_zscore_def float_int_limit_def
      no_attribute_def error_response_def)

text \<open>
  C4, amended. The endpoint answers 400 exactly when the body is an object, the three
  conversions and \<^verbatim>\<open>.upper()\<close> raise nothing (so gender is absent or a string), and
  \<^verbatim>\<open>weight\<close> or \<^verbatim>\<open>age_months\<close> converts to \<^verbatim>\<open>None\<close> (absent, null, empty or
  not a number) or the uppercased gender is neither \<^verbatim>\<open>M\<close> nor \<^verbatim>\<open>F\<close>. A 400 carries
  an \<^verbatim>\<open>error\<close> field and no \<^verbatim>\<open>z_score\<close> key. It answers 500 when the body is not
  an object, when gender is present and not a string, on any other exception, and when
  the z-score is \<^verbatim>\<open>None\<close>. A success is a 200 that carries the z-score rounded to two
  decimals and the classification of the unrounded z-score.
\<close>

theorem zscore_status_codes:
  "(fst (fst (api_calculate_zscore float_str s data)) = 400) =
     (\<exists>wv hv av gv w h a g.
        py_get data ''weight'' = Inr wv \<and> as_float float_str wv = Inr w
        \<and> py_get data ''height'' = Inr hv \<and> as_float float_str hv = Inr h
        \<and> py_get data ''age_months'' = Inr av \<and> as_float float_str av = Inr a
        \<and> py_get_default data ''gender'' (JStr ''M'') = Inr gv \<and> upper gv = Inr g
        \<and> (w = None \<or> a = None \<or> (g \<noteq> ''M'' \<and> g \<noteq> ''F'')))
   \<and> (fst (fst (api_calculate_zscore float_str s data)) = 400 \<longrightarrow>
        body_field (fst (api_calculate_zscore float_str s data)) ''error'' \<noteq> None
        \<and> body_field (fst (api_calculate_zscore float_str s data)) ''z_score'' = None)
   \<and> ((\<forall>kvs. data \<noteq> JObj kvs) \<longrightarrow>
        fst (fst (api_calculate_zscore float_str s data)) = 500)
   \<and> (py_get_default data ''gender'' (JStr ''M'') = Inr gv \<and> (\<forall>x. gv \<noteq> JStr x) \<longrightarrow>
        fst (fst (api_calculate_zscore float_str s data)) = 500)
   \<and> (api_calculate_zscore_inputs float_str data = Inl e \<longrightarrow>
        fst (api_calculate_zscore float_str s data) = error_response 500 (exn_str e))
   \<and> (api_calculate_zscore_inputs float_str data = Inr (Accept args) \<longrightarrow>
        (case fst (calculate_z_score s (arg_weight args) (arg_height args)
                 (arg_age_months args) (arg_gender args) (arg_type args)) of
           None \<Rightarrow>
             fst (api_calculate_zscore float_str s data)
               = error_response 500 ''Could not calculate z-score''
         | Some z \<Rightarrow>
             fst (fst (api_calculate_zscore float_str s data)) = 200
             \<and> body_field (fst (api_calculate_zscore float_str s data)) ''z_score''
                 = Some (JFloat (py_round z 2))
             \<and> body_field (fst (api_calculate_zscore float_str s data)) ''classification''
                 = Some (classification_json (classify_nutrition (Some z)))
             \<and> \<bar>py_round z 2 - z\<bar> \<le> 1 / 200
             \<and> (\<exists>k :: int. py_round z 2 = of_int k / 100)))"
proof (intro conjI impI)
  show "(fst (fst (api_calculate_zscore float_str s data)) = 400) =
     (\<exists>wv hv av gv w h a g.
        py_get data ''weight'' = Inr wv \<and> as_float float_str wv = Inr w
        \<and> py_get data ''height'' = Inr hv \<and> as_float float_str hv = Inr h
        \<and> py_get data ''age_months'' = Inr av \<and> as_float float_str av = Inr a
        \<and> py_get_default data ''gender'' (JStr ''M'') = Inr gv \<and> upper gv = Inr g
        \<and> (w = None \<or> a = None \<or> (g \<noteq> ''M'' \<and> g \<noteq> ''F'')))"
    unfolding api_status_400_iff by (rule inputs_Reject_iff)
next
  assume "fst (fst (api_calculate_zscore float_str s data)) = 400"
  then obtain r where r: "api_calculate_zscore_inputs float_str data = Inr (Reject r)"
    unfolding api_status_400_iff by blast
  then have f: "fst (api_calculate_zscore float_str s data) = r"
    by (simp add: api_calculate_zscore_def)
  from inputs_Reject [OF r]
  show "body_field (fst (api_calculate_zscore float_str s data)) ''error'' \<noteq> None"
    and "body_field (fst (api_calculate_zscore float_str s data)) ''z_score'' = None"
    unfolding f by (auto simp add: body_field_def error_response_def)
next
  assume "\<forall>kvs. data \<noteq> JObj kvs"
  then show "fst (fst (api_calculate_zscore float_str s data)) = 500"
    by (simp add: inputs_not_object api_calculate_zscore_def error_response_def)
next
  assume "py_get_default data ''gender'' (JStr ''M'') = Inr gv \<and> (\<forall>x. gv \<noteq> JStr x)"
  then obtain e' where "api_calculate_zscore_inputs float_str data = Inl e'"
    using gender_not_string by blast
  then show "fst (fst (api_calculate_zscore float_str s data)) = 500"
    by (simp add: inputs_Inl_status error_response_def)
next
  assume "api_calculate_zscore_inputs float_str data = Inl e"
  then show "fst (api_calculate_zscore float_str s data) = error_response 500 (exn_str e)"
    by (rule inputs_Inl_status)
next
  assume acc: "api_calculate_zscore_inputs float_str data = Inr (Accept args)"
  show "case fst (calculate_z_score s (arg_weight args) (arg_height args)
                 (arg_age_months args) (arg_gender args) (arg_type args)) of
           None \<Rightarrow>
             fst (api_calculate_zscore float_str s data)
               = error_response 500 ''Could not calculate z-score''
         | Some z \<Rightarrow>
             fst (fst (api_calculate_zscore float_str s data)) = 200
             \<and> body_field (fst (api_calculate_zscore float_str s data)) ''z_score''
                 = Some (JFloat (py_round z 2))
             \<and> body_field (fst (api_calculate_zscore float_str s data)) ''classification''
                 = Some (classification_json (classify_nutrition (Some z)))
             \<and> \<bar>py_round z 2 - z\<bar> \<le> 1 / 200
             \<and> (\<exists>k :: int. py_round z 2 = of_int k / 100)"
    using acc py_round_2
    by (simp add: api_calculate_zscore_def zscore_response_def jsonify_def body_field_def
        split: prod.splits option.splits)
qed

text \<open>A request without weight, and a complete one answered by a calculator that returns 0.125.\<close>

theorem zscore_status_codes_witness:
  "fst (fst (api_calculate_zscore digits_float
        \<lparr>calc = Some (constant_calc (Some 0.125)), stdout = []\<rparr>
        (JObj [(''age_months'', JInt 12)]))) = 400
   \<and> body_field (fst (api_calculate_zscore digits_float
        \<lparr>calc = Some (constant_calc (Some 0.125)), stdout = []\<rparr>
        (JObj [(''age_months'', JInt 12)]))) ''z_score'' = None
   \<and> body_field (fst (api_calculate_zscore digits_float
        \<lparr>calc = Some (constant_calc (Some 0.125)), stdout = []\<rparr>
        (JObj [(''age_months'', JInt 12)]))) ''error'' \<noteq> None
   \<and> fst (fst (api_calculate_zscore digits_float
        \<lparr>calc = Some (constant_calc (Some 0.125)), stdout = []\<rparr>
        (JObj [(''weight'', JFloat 9.5), (''age_months'', JInt 12), (''gender'', JStr ''M''),
               (''type'', JStr ''wfa'')]))) = 200
   \<and> body_field (fst (api_calculate_zscore digits_float
        \<lparr>calc = Some (constant_calc (Some 0.125)), stdout = []\<rparr>
        (JObj [(''weight'', JFloat 9.5), (''age_months'', JInt 12), (''gender'', JStr ''M''),
               (''type'', JStr ''wfa'')]))) ''z_score'' = Some (JFloat 0.12)"
proof -
  let ?s = "\<lparr>calc = Some (constant_calc (Some 0.125)), stdout = []\<rparr>"
  let ?d = "JObj [(''age_months'', JInt 12)]"
  let ?g = "JObj [(''weight'', JFloat 9.5), (''age_months'', JInt 12), (''gender'', JStr ''M''),
               (''type'', JStr ''wfa'')]"
  let ?args = "\<lparr>arg_weight = 9.5, arg_height = None, arg_age_months = 12,
                 arg_gender = ''M'', arg_type = JStr ''wfa''\<rparr>"
  have ex: "\<exists>wv hv av gv w h a g.
        py_get ?d ''weight'' = Inr wv \<and> as_float digits_float wv = Inr w
        \<and> py_get ?d ''height'' = Inr hv \<and> as_float digits_float hv = Inr h
        \<and> py_get ?d ''age_months'' = Inr av \<and> as_float digits_float av = Inr a
        \<and> py_get_default ?d ''gender'' (JStr ''M'') = Inr gv \<and> upper gv = Inr g
        \<and> (w = None \<or> a = None \<or> (g \<noteq> ''M'' \<and> g \<noteq> ''F''))"
    by (simp add: py_get_def float_int_limit_def)
  note t = zscore_status_codes [of digits_float ?s ?d]
  from t ex have st: "fst (fst (api_calculate_zscore digits_float ?s ?d)) = 400" by blast
  with t have bd: "body_field (fst (api_calculate_zscore digits_float ?s ?d)) ''error'' \<noteq> None
      \<and> body_field (fst (api_calculate_zscore digits_float ?s ?d)) ''z_score'' = None"
    by blast
  have acc: "api_calculate_zscore_inputs digits_float ?g = Inr (Accept ?args)"
    by (simp add: inputs_object upper_char_def float_int_limit_def)
  have z: "fst (calculate_z_score ?s (arg_weight ?args) (arg_height ?args)
        (arg_age_months ?args) (arg_gender ?args) (arg_type ?args)) = Some 0.125"
    by (simp add: calculate_z_score_def z_score_lookup_def constant_calc_def)
  have r: "py_round 0.125 2 = 0.12"
    by (simp add: py_round_def round_half_even_def Let_def)
  from zscore_status_codes [where float_str = digits_float and s = ?s and data = ?g
      and args = ?args] acc
  have "case fst (calculate_z_score ?s (arg_weight ?args) (arg_height ?args)
        (arg_age_months ?args) (arg_gender ?args) (arg_type ?args)) of
      None \<Rightarrow> fst (api_calculate_zscore digits_float ?s ?g)
        = error_response 500 ''Could not calculate z-score''
    | Some z \<Rightarrow>
        fst (fst (api_calculate_zscore digits_float ?s ?g)) = 200
        \<and> body_field (fst (api_calculate_zscore digits_float ?s ?g)) ''z_score''
            = Some (JFloat (py_round z 2))
        \<and> body_field (fst (api_calculate_zscore digits_float ?s ?g)) ''classification''
            = Some (classification_json (classify_nutrition (Some z)))
        \<and> \<bar>py_round z 2 - z\<bar> \<le> 1 / 200
        \<and> (\<exists>k :: int. py_round z 2 = of_int k / 100)"
    by blast
  then have ok: "fst (fst (api_calculate_zscore digits_float ?s ?g)) = 200
      \<and> body_field (fst (api_calculate_zscore digits_float ?s ?g)) ''z_score''
          = Some (JFloat 0.12)"
    unfolding z using r by simp
  from st bd ok show ?thesis by simp
qed


text \<open>The first part of the handler reads five keys of the body and nothing else.\<close>

lemma inputs_cong:
  assumes "map_of k1 ''weight'' = map_of k2 ''weight''"
    and "map_of k1 ''height'' = map_of k2 ''height''"
    and "map_of k1 ''age_months'' = map_of k2 ''age_months''"
    and "(case map_of k1 ''gender'' of None \<Rightarrow> JStr ''M'' | Some x \<Rightarrow> x)
       = (case map_of k2 ''gender'' of None \<Rightarrow> JStr ''M'' | Some x \<Rightarrow> x)"
    and "map_of k1 ''type'' = map_of k2 ''type''"
  shows "api_calculate_zscore_inputs float_str (JObj k1)
       = api_calculate_zscore_inputs float_str (JObj k2)"
  unfolding inputs_object assms by (rule refl)

text \<open>
  The response to a request that reaches the calculator, and the one rejection a request
  with a gender of \<^verbatim>\<open>M\<close> or \<^verbatim>\<open>F\<close> cannot get.
\<close>

lemma api_Accept:
  assumes "api_calculate_zscore_inputs float_str data = Inr (Accept args)"
  shows "api_calculate_zscore float_str s data =
     (zscore_response args
        (fst (calculate_z_score s (arg_weight args) (arg_height args) (arg_age_months args)
           (arg_gender args) (arg_type args))),
      snd (calculate_z_score s (arg_weight args) (arg_height args) (arg_age_months args)
           (arg_gender args) (arg_type args)))"
  using assms by (simp add: api_calculate_zscore_def case_prod_beta)

lemma gender_ok_not_rejected_for_gender:
  assumes "upper (case map_of kvs ''gender'' of None \<Rightarrow> JStr ''M'' | Some x \<Rightarrow> x) = Inr g"
    and "g = ''M'' \<or> g = ''F''"
  shows "fst (api_calculate_zscore float_str s (JObj kvs))
       \<noteq> error_response 400 ''Gender must be M or F''"
proof (cases "api_calculate_zscore_inputs float_str (JObj kvs)")
  case (Inl e)
  then show ?thesis by (simp add: api_calculate_zscore_def error_response_def)
next
  case (Inr ch)
  show ?thesis
  proof (cases ch)
    case (Reject r)
    with Inr have "api_calculate_zscore_inputs float_str (JObj kvs) = Inr (Reject r)" by simp
    then have "r = error_response 400 ''Weight and age are required''"
      unfolding inputs_object using assms
      by (auto split: sum.splits if_splits)
    with Inr Reject show ?thesis
      by (simp add: api_calculate_zscore_def error_response_def)
  next
    case (Accept args)
    with Inr have "api_calculate_zscore_inputs float_str (JObj kvs) = Inr (Accept args)" by simp
    from api_Accept [OF this, of s] show ?thesis
      by (simp add: zscore_response_def error_response_def jsonify_def split: option.splits)
  qed
qed


lemma api_accepted_response:
  assumes "api_calculate_zscore_inputs float_str (JObj kvs)
      = Inr (Accept \<lparr>arg_weight = w, arg_height = h, arg_age_months = a,
                      arg_gender = g, arg_type = tv\<rparr>)"
  shows "api_calculate_zscore float_str s (JObj kvs)
             = (zscore_response
                  \<lparr>arg_weight = w, arg_height = h, arg_age_months = a,
                     arg_gender = g, arg_type = tv\<rparr>
                  (fst (calculate_z_score s w h a g tv)),
                snd (calculate_z_score s w h a g tv))
           \<and> fst (fst (api_calculate_zscore float_str s (JObj kvs))) \<noteq> 400
           \<and> (\<forall>z. fst (calculate_z_score s w h a g tv) = Some z \<longrightarrow>
                 fst (fst (api_calculate_zscore float_str s (JObj kvs))) = 200
                 \<and> body_field (fst (api_calculate_zscore float_str s (JObj kvs))) ''inputs''
                     = Some (JObj [(''weight'', JFloat w), (''height'', json_of_option h),
                                   (''age_months'', JFloat a), (''gender'', JStr g)]))"
proof -
  from api_Accept [OF assms, of s]
  have e: "api_calculate_zscore float_str s (JObj kvs)
             = (zscore_response
                  \<lparr>arg_weight = w, arg_height = h, arg_age_months = a,
                     arg_gender = g, arg_type = tv\<rparr>
                  (fst (calculate_z_score s w h a g tv)),
                snd (calculate_z_score s w h a g tv))"
    by simp
  show ?thesis
    unfolding e
    by (simp add: zscore_response_status)
      (simp add: zscore_response_def jsonify_def body_field_def)
qed

text \<open>
  C9. A request without a \<^verbatim>\<open>gender\<close> field is not rejected for it: the endpoint
  answers it as the same request with gender \<^verbatim>\<open>M\<close>, never with the 400 of the gender
  check, and when weight and age are numbers its answer is the one computed for gender
  \<^verbatim>\<open>M\<close>: not a 400, and a 200 echoing gender \<^verbatim>\<open>M\<close> when the calculator returns a
  z-score. The lowercase values \<^verbatim>\<open>m\<close> and \<^verbatim>\<open>f\<close> are accepted in the same way as
  \<^verbatim>\<open>M\<close> and \<^verbatim>\<open>F\<close>, gender being uppercased before the check.
\<close>

theorem gender_default_and_uppercase:
  "(map_of kvs ''gender'' = None \<longrightarrow>
      api_calculate_zscore float_str s (JObj kvs)
        = api_calculate_zscore float_str s (JObj ((''gender'', JStr ''M'') # kvs)))
   \<and> ((map_of kvs ''gender'' = None \<or> map_of kvs ''gender'' = Some (JStr ''m'')
        \<or> map_of kvs ''gender'' = Some (JStr ''M'') \<or> map_of kvs ''gender'' = Some (JStr ''f'')
        \<or> map_of kvs ''gender'' = Some (JStr ''F'')) \<longrightarrow>
        fst (api_calculate_zscore float_str s (JObj kvs))
          \<noteq> error_response 400 ''Gender must be M or F'')
   \<and> (py_get (JObj kvs) ''weight'' = Inr wv \<and> as_float float_str wv = Inr (Some w)
        \<and> py_get (JObj kvs) ''height'' = Inr hv \<and> as_float float_str hv = Inr h
        \<and> py_get (JObj kvs) ''age_months'' = Inr av \<and> as_float float_str av = Inr (Some a)
        \<and> py_get_default (JObj kvs) ''type'' (JStr ''wfa'') = Inr tv \<longrightarrow>
        ((map_of kvs ''gender'' = None \<or> map_of kvs ''gender'' = Some (JStr ''m'')
           \<or> map_of kvs ''gender'' = Some (JStr ''M'')) \<longrightarrow>
           api_calculate_zscore float_str s (JObj kvs)
             = (zscore_response
                  \<lparr>arg_weight = w, arg_height = h, arg_age_months = a,
                     arg_gender = ''M'', arg_type = tv\<rparr>
                  (fst (calculate_z_score s w h a ''M'' tv)),
                snd (calculate_z_score s w h a ''M'' tv))
           \<and> fst (fst (api_calculate_zscore float_str s (JObj kvs))) \<noteq> 400
           \<and> (\<forall>z. fst (calculate_z_score s w h a ''M'' tv) = Some z \<longrightarrow>
                 fst (fst (api_calculate_zscore float_str s (JObj kvs))) = 200
                 \<and> body_field (fst (api_calculate_zscore float_str s (JObj kvs))) ''inputs''
                     = Some (JObj [(''weight'', JFloat w), (''height'', json_of_option h),
                                   (''age_months'', JFloat a), (''gender'', JStr ''M'')])))
        \<and> ((map_of kvs ''gender'' = Some (JStr ''f'')
           \<or> map_of kvs ''gender'' = Some (JStr ''F'')) \<longrightarrow>
           api_calculate_zscore float_str s (JObj kvs)
             = (zscore_response
                  \<lparr>arg_weight = w, arg_height = h, arg_age_months = a,
                     arg_gender = ''F'', arg_type = tv\<rparr>
                  (fst (calculate_z_score s w h a ''F'' tv)),
                snd (calculate_z_score s w h a ''F'' tv))
           \<and> fst (fst (api_calculate_zscore float_str s (JObj kvs))) \<noteq> 400
           \<and> (\<forall>z. fst (calculate_z_score s w h a ''F'' tv) = Some z \<longrightarrow>
                 fst (fst (api_calculate_zscore float_str s (JObj kvs))) = 200
                 \<and> body_field (fst (api_calculate_zscore float_str s (JObj kvs))) ''inputs''
                     = Some (JObj [(''weight'', JFloat w), (''height'', json_of_option h),
                                   (''age_months'', JFloat a), (''gender'', JStr ''F'')]))))"
proof -
  have one: "map_of kvs ''gender'' = None \<longrightarrow>
      api_calculate_zscore float_str s (JObj kvs)
        = api_calculate_zscore float_str s (JObj ((''gender'', JStr ''M'') # kvs))"
  proof (rule impI)
    assume "map_of kvs ''gender'' = None"
    then have "api_calculate_zscore_inputs float_str (JObj kvs)
        = api_calculate_zscore_inputs float_str (JObj ((''gender'', JStr ''M'') # kvs))"
      by (intro inputs_cong) simp_all
    then show "api_calculate_zscore float_str s (JObj kvs)
        = api_calculate_zscore float_str s (JObj ((''gender'', JStr ''M'') # kvs))"
      by (simp add: api_calculate_zscore_def)
  qed
  have two: "(map_of kvs ''gender'' = None \<or> map_of kvs ''gender'' = Some (JStr ''m'')
        \<or> map_of kvs ''gender'' = Some (JStr ''M'') \<or> map_of kvs ''gender'' = Some (JStr ''f'')
        \<or> map_of kvs ''gender'' = Some (JStr ''F'')) \<longrightarrow>
        fst (api_calculate_zscore float_str s (JObj kvs))
          \<noteq> error_response 400 ''Gender must be M or F''"
  proof (rule impI)
    assume "map_of kvs ''gender'' = None \<or> map_of kvs ''gender'' = Some (JStr ''m'')
        \<or> map_of kvs ''gender'' = Some (JStr ''M'') \<or> map_of kvs ''gender'' = Some (JStr ''f'')
        \<or> map_of kvs ''gender'' = Some (JStr ''F'')"
    then obtain u
      where "upper (case map_of kvs ''gender'' of None \<Rightarrow> JStr ''M'' | Some x \<Rightarrow> x) = Inr u"
      and "u = ''M'' \<or> u = ''F''"
      by (auto simp add: upper_char_def)
    then show "fst (api_calculate_zscore float_str s (JObj kvs))
        \<noteq> error_response 400 ''Gender must be M or F''"
      by (rule gender_ok_not_rejected_for_gender)
  qed
  have three: "py_get (JObj kvs) ''weight'' = Inr wv \<and> as_float float_str wv = Inr (Some w)
        \<and> py_get (JObj kvs) ''height'' = Inr hv \<and> as_float float_str hv = Inr h
        \<and> py_get (JObj kvs) ''age_months'' = Inr av \<and> as_float float_str av = Inr (Some a)
        \<and> py_get_default (JObj kvs) ''type'' (JStr ''wfa'') = Inr tv \<longrightarrow>
        ((map_of kvs ''gender'' = None \<or> map_of kvs ''gender'' = Some (JStr ''m'')
           \<or> map_of kvs ''gender'' = Some (JStr ''M'')) \<longrightarrow>
           api_calculate_zscore float_str s (JObj kvs)
             = (zscore_response
                  \<lparr>arg_weight = w, arg_height = h, arg_age_months = a,
                     arg_gender = ''M'', arg_type = tv\<rparr>
                  (fst (calculate_z_score s w h a ''M'' tv)),
                snd (calculate_z_score s w h a ''M'' tv))
           \<and> fst (fst (api_calculate_zscore float_str s (JObj kvs))) \<noteq> 400
           \<and> (\<forall>z. fst (calculate_z_score s w h a ''M'' tv) = Some z \<longrightarrow>
                 fst (fst (api_calculate_zscore float_str s (JObj kvs))) = 200
                 \<and> body_field (fst (api_calculate_zscore float_str s (JObj kvs))) ''inputs''
                     = Some (JObj [(''weight'', JFloat w), (''height'', json_of_option h),
                                   (''age_months'', JFloat a), (''gender'', JStr ''M'')])))
        \<and> ((map_of kvs ''gender'' = Some (JStr ''f'')
           \<or> map_of kvs ''gender'' = Some (JStr ''F'')) \<longrightarrow>
           api_calculate_zscore float_str s (JObj kvs)
             = (zscore_response
                  \<lparr>arg_weight = w, arg_height = h, arg_age_months = a,
                     arg_gender = ''F'', arg_type = tv\<rparr>
                  (fst (calculate_z_score s w h a ''F'' tv)),
                snd (calculate_z_score s w h a ''F'' tv))
           \<and> fst (fst (api_calculate_zscore float_str s (JObj kvs))) \<noteq> 400
           \<and> (\<forall>z. fst (calculate_z_score s w h a ''F'' tv) = Some z \<longrightarrow>
                 fst (fst (api_calculate_zscore float_str s (JObj kvs))) = 200
                 \<and> body_field (fst (api_calculate_zscore float_str s (JObj kvs))) ''inputs''
                     = Some (JObj [(''weight'', JFloat w), (''height'', json_of_option h),
                                   (''age_months'', JFloat a), (''gender'', JStr ''F'')])))"
  proof (rule impI)
    assume r: "py_get (JObj kvs) ''weight'' = Inr wv \<and> as_float float_str wv = Inr (Some w)
        \<and> py_get (JObj kvs) ''height'' = Inr hv \<and> as_float float_str hv = Inr h
        \<and> py_get (JObj kvs) ''age_months'' = Inr av \<and> as_float float_str av = Inr (Some a)
        \<and> py_get_default (JObj kvs) ''type'' (JStr ''wfa'') = Inr tv"
    have m: "(map_of kvs ''gender'' = None \<or> map_of kvs ''gender'' = Some (JStr ''m'')
           \<or> map_of kvs ''gender'' = Some (JStr ''M'')) \<longrightarrow>
           api_calculate_zscore float_str s (JObj kvs)
             = (zscore_response
                  \<lparr>arg_weight = w, arg_height = h, arg_age_months = a,
                     arg_gender = ''M'', arg_type = tv\<rparr>
                  (fst (calculate_z_score s w h a ''M'' tv)),
                snd (calculate_z_score s w h a ''M'' tv))
           \<and> fst (fst (api_calculate_zscore float_str s (JObj kvs))) \<noteq> 400
           \<and> (\<forall>z. fst (calculate_z_score s w h a ''M'' tv) = Some z \<longrightarrow>
                 fst (fst (api_calculate_zscore float_str s (JObj kvs))) = 200
                 \<and> body_field (fst (api_calculate_zscore float_str s (JObj kvs))) ''inputs''
                     = Some (JObj [(''weight'', JFloat w), (''height'', json_of_option h),
                                   (''age_months'', JFloat a), (''gender'', JStr ''M'')]))"
    proof (rule impI)
      assume g: "map_of kvs ''gender'' = None \<or> map_of kvs ''gender'' = Some (JStr ''m'')
           \<or> map_of kvs ''gender'' = Some (JStr ''M'')"
      from g have "upper (case map_of kvs ''gender'' of None \<Rightarrow> JStr ''M'' | Some x \<Rightarrow> x)
          = Inr ''M''"
        by (auto simp add: upper_char_def)
      with r have "api_calculate_zscore_inputs float_str (JObj kvs)
          = Inr (Accept \<lparr>arg_weight = w, arg_height = h, arg_age_months = a,
                          arg_gender = ''M'', arg_type = tv\<rparr>)"
        by (auto simp add: inputs_object py_get_def)
      then show "api_calculate_zscore float_str s (JObj kvs)
             = (zscore_response
                  \<lparr>arg_weight = w, arg_height = h, arg_age_months = a,
                     arg_gender = ''M'', arg_type = tv\<rparr>
                  (fst (calculate_z_score s w h a ''M'' tv)),
                snd (calculate_z_score s w h a ''M'' tv))
           \<and> fst (fst (api_calculate_zscore float_str s (JObj kvs))) \<noteq> 400
           \<and> (\<forall>z. fst (calculate_z_score s w h a ''M'' tv) = Some z \<longrightarrow>
                 fst (fst (api_calculate_zscore float_str s (JObj kvs))) = 200
                 \<and> body_field (fst (api_calculate_zscore float_str s (JObj kvs))) ''inputs''
                     = Some (JObj [(''weight'', JFloat w), (''height'', json_of_option h),
                                   (''age_months'', JFloat a), (''gender'', JStr ''M'')]))"
        by (rule api_accepted_response)
    qed
    have f: "(map_of kvs ''gender'' = Some (JStr ''f'')
           \<or> map_of kvs ''gender'' = Some (JStr ''F'')) \<longrightarrow>
           api_calculate_zscore float_str s (JObj kvs)
             = (zscore_response
                  \<lparr>arg_weight = w, arg_height = h, arg_age_months = a,
                     arg_gender = ''F'', arg_type = tv\<rparr>
                  (fst (calculate_z_score s w h a ''F'' tv)),
                snd (calculate_z_score s w h a ''F'' tv))
           \<and> fst (fst (api_calculate_zscore float_str s (JObj kvs))) \<noteq> 400
           \<and> (\<forall>z. fst (calculate_z_score s w h a ''F'' tv) = Some z \<longrightarrow>
                 fst (fst (api_calculate_zscore float_str s (JObj kvs))) = 200
                 \<and> body_field (fst (api_calculate_zscore float_str s (JObj kvs))) ''inputs''
                     = Some (JObj [(''weight'', JFloat w), (''height'', json_of_option h),
                                   (''age_months'', JFloat a), (''gender'', JStr ''F'')]))"
    proof (rule impI)
      assume g: "map_of kvs ''gender'' = Some (JStr ''f'')
           \<or> map_of kvs ''gender'' = Some (JStr ''F'')"
      from g have "upper (case map_of kvs ''gender'' of None \<Rightarrow> JStr ''M'' | Some x \<Rightarrow> x)
          = Inr ''F''"
        by (auto simp add: upper_char_def)
      with r have "api_calculate_zscore_inputs float_str (JObj kvs)
          = Inr (Accept \<lparr>arg_weight = w, arg_height = h, arg_age_months = a,
                          arg_gender = ''F'', arg_type = tv\<rparr>)"
        by (auto simp add: inputs_object py_get_def)
      then show "api_calculate_zscore float_str s (JObj kvs)
             = (zscore_response
                  \<lparr>arg_weight = w, arg_height = h, arg_age_months = a,
                     arg_gender = ''F'', arg_type = tv\<rparr>
                  (fst (calculate_z_score s w h a ''F'' tv)),
                snd (calculate_z_score s w h a ''F'' tv))
           \<and> fst (fst (api_calculate_zscore float_str s (JObj kvs))) \<noteq> 400
           \<and> (\<forall>z. fst (calculate_z_score s w h a ''F'' tv) = Some z \<longrightarrow>
                 fst (fst (api_calculate_zscore float_str s (JObj kvs))) = 200
                 \<and> body_field (fst (api_calculate_zscore float_str s (JObj kvs))) ''inputs''
                     = Some (JObj [(''weight'', JFloat w), (''height'', json_of_option h),
                                   (''age_months'', JFloat a), (''gender'', JStr ''F'')]))"
        by (rule api_accepted_response)
    qed
    from m f show "((map_of kvs ''gender'' = None \<or> map_of kvs ''gender'' = Some (JStr ''m'')
           \<or> map_of kvs ''gender'' = Some (JStr ''M'')) \<longrightarrow>
           api_calculate_zscore float_str s (JObj kvs)
             = (zscore_response
                  \<lparr>arg_weight = w, arg_height = h, arg_age_months = a,
                     arg_gender = ''M'', arg_type = tv\<rparr>
                  (fst (calculate_z_score s w h a ''M'' tv)),
                snd (calculate_z_score s w h a ''M'' tv))
           \<and> fst (fst (api_calculate_zscore float_str s (JObj kvs))) \<noteq> 400
           \<and> (\<forall>z. fst (calculate_z_score s w h a ''M'' tv) = Some z \<longrightarrow>
                 fst (fst (api_calculate_zscore float_str s (JObj kvs))) = 200
                 \<and> body_field (fst (api_calculate_zscore float_str s (JObj kvs))) ''inputs''
                     = Some (JObj [(''weight'', JFloat w), (''height'', json_of_option h),
                                   (''age_months'', JFloat a), (''gender'', JStr ''M'')])))
        \<and> ((map_of kvs ''gender'' = Some (JStr ''f'')
           \<or> map_of kvs ''gender'' = Some (JStr ''F'')) \<longrightarrow>
           api_calculate_zscore float_str s (JObj kvs)
             = (zscore_response
                  \<lparr>arg_weight = w, arg_height = h, arg_age_months = a,
                     arg_gender = ''F'', arg_type = tv\<rparr>
                  (fst (calculate_z_score s w h a ''F'' tv)),
                snd (calculate_z_score s w h a ''F'' tv))
           \<and> fst (fst (api_calculate_zscore float_str s (JObj kvs))) \<noteq> 400
           \<and> (\<forall>z. fst (calculate_z_score s w h a ''F'' tv) = Some z \<longrightarrow>
                 fst (fst (api_calculate_zscore float_str s (JObj kvs))) = 200
                 \<and> body_field (fst (api_calculate_zscore float_str s (JObj kvs))) ''inputs''
                     = Some (JObj [(''weight'', JFloat w), (''height'', json_of_option h),
                                   (''age_months'', JFloat a), (''gender'', JStr ''F'')])))"
      by (rule conjI)
  qed
  from one two three show ?thesis by (intro conjI)
qed

text \<open>
  A request without gender and one with gender \<^verbatim>\<open>f\<close>, both answered 200, with gender
  \<^verbatim>\<open>M\<close> and \<^verbatim>\<open>F\<close> among the echoed inputs.
\<close>

theorem gender_default_and_uppercase_witness:
  "fst (fst (api_calculate_zscore digits_float \<lparr>calc = Some echo_calc, stdout = []\<rparr>
       (JObj [(''weight'', JStr ''9''), (''age_months'', JInt 12)]))) = 200
   \<and> body_field (fst (api_calculate_zscore digits_float \<lparr>calc = Some echo_calc, stdout = []\<rparr>
       (JObj [(''weight'', JStr ''9''), (''age_months'', JInt 12)]))) ''inputs''
     = Some (JObj [(''weight'', JFloat 9), (''height'', JNull), (''age_months'', JFloat 12),
                   (''gender'', JStr ''M'')])
   \<and> fst (fst (api_calculate_zscore digits_float \<lparr>calc = Some echo_calc, stdout = []\<rparr>
       (JObj [(''weight'', JStr ''9''), (''age_months'', JInt 12), (''gender'', JStr ''f'')])))
     = 200
   \<and> body_field (fst (api_calculate_zscore digits_float \<lparr>calc = Some echo_calc, stdout = []\<rparr>
       (JObj [(''weight'', JStr ''9''), (''age_months'', JInt 12), (''gender'', JStr ''f'')])))
       ''inputs''
     = Some (JObj [(''weight'', JFloat 9), (''height'', JNull), (''age_months'', JFloat 12),
                   (''gender'', JStr ''F'')])"
proof -
  let ?s = "\<lparr>calc = Some echo_calc, stdout = []\<rparr>"
  let ?k1 = "[(''weight'', JStr ''9''), (''age_months'', JInt 12)]"
  let ?k2 = "[(''weight'', JStr ''9''), (''age_months'', JInt 12), (''gender'', JStr ''f'')]"
  have w: "as_float digits_float (JStr ''9'') = Inr (Some 9)"
    by (simp add: digits_float_def digit_value_def)
  have a: "as_float digits_float (JInt 12) = Inr (Some 12)" by (simp add: float_int_limit_def)
  have h: "as_float digits_float JNull = Inr None" by simp
  have r1: "py_get (JObj ?k1) ''weight'' = Inr (JStr ''9'')
      \<and> as_float digits_float (JStr ''9'') = Inr (Some 9)
      \<and> py_get (JObj ?k1) ''height'' = Inr JNull \<and> as_float digits_float JNull = Inr None
      \<and> py_get (JObj ?k1) ''age_months'' = Inr (JInt 12)
      \<and> as_float digits_float (JInt 12) = Inr (Some 12)
      \<and> py_get_default (JObj ?k1) ''type'' (JStr ''wfa'') = Inr (JStr ''wfa'')"
    using w a h by (simp add: py_get_def)
  have r2: "py_get (JObj ?k2) ''weight'' = Inr (JStr ''9'')
      \<and> as_float digits_float (JStr ''9'') = Inr (Some 9)
      \<and> py_get (JObj ?k2) ''height'' = Inr JNull \<and> as_float digits_float JNull = Inr None
      \<and> py_get (JObj ?k2) ''age_months'' = Inr (JInt 12)
      \<and> as_float digits_float (JInt 12) = Inr (Some 12)
      \<and> py_get_default (JObj ?k2) ''type'' (JStr ''wfa'') = Inr (JStr ''wfa'')"
    using w a h by (simp add: py_get_def)
  have g1: "map_of ?k1 ''gender'' = None \<or> map_of ?k1 ''gender'' = Some (JStr ''m'')
      \<or> map_of ?k1 ''gender'' = Some (JStr ''M'')" by simp
  have g2: "map_of ?k2 ''gender'' = Some (JStr ''f'')
      \<or> map_of ?k2 ''gender'' = Some (JStr ''F'')" by simp
  have zM: "fst (calculate_z_score ?s 9 None 12 ''M'' (JStr ''wfa'')) = Some 12"
    by (simp add: calculate_z_score_def z_score_lookup_def echo_calc_def)
  have zF: "fst (calculate_z_score ?s 9 None 12 ''F'' (JStr ''wfa'')) = Some 12"
    by (simp add: calculate_z_score_def z_score_lookup_def echo_calc_def)
  from gender_default_and_uppercase [where kvs = ?k1 and float_str = digits_float and s = ?s
      and wv = "JStr ''9''" and w = 9 and hv = JNull and h = None and av = "JInt 12"
      and a = 12 and tv = "JStr ''wfa''"] r1 g1
  have "\<forall>z. fst (calculate_z_score ?s 9 None 12 ''M'' (JStr ''wfa'')) = Some z \<longrightarrow>
      fst (fst (api_calculate_zscore digits_float ?s (JObj ?k1))) = 200
      \<and> body_field (fst (api_calculate_zscore digits_float ?s (JObj ?k1))) ''inputs''
          = Some (JObj [(''weight'', JFloat 9), (''height'', json_of_option None),
                        (''age_months'', JFloat 12), (''gender'', JStr ''M'')])"
    by blast
  with zM have one: "fst (fst (api_calculate_zscore digits_float ?s (JObj ?k1))) = 200
      \<and> body_field (fst (api_calculate_zscore digits_float ?s (JObj ?k1))) ''inputs''
          = Some (JObj [(''weight'', JFloat 9), (''height'', JNull),
                        (''age_months'', JFloat 12), (''gender'', JStr ''M'')])"
    by (simp add: json_of_option_def)
  from gender_default_and_uppercase [where kvs = ?k2 and float_str = digits_float and s = ?s
      and wv = "JStr ''9''" and w = 9 and hv = JNull and h = None and av = "JInt 12"
      and a = 12 and tv = "JStr ''wfa''"] r2 g2
  have "\<forall>z. fst (calculate_z_score ?s 9 None 12 ''F'' (JStr ''wfa'')) = Some z \<longrightarrow>
      fst (fst (api_calculate_zscore digits_float ?s (JObj ?k2))) = 200
      \<and> body_field (fst (api_calculate_zscore digits_float ?s (JObj ?k2))) ''inputs''
          = Some (JObj [(''weight'', JFloat 9), (''height'', json_of_option None),
                        (''age_months'', JFloat 12), (''gender'', JStr ''F'')])"
    by blast
  with zF have two: "fst (fst (api_calculate_zscore digits_float ?s (JObj ?k2))) = 200
      \<and> body_field (fst (api_calculate_zscore digits_float ?s (JObj ?k2))) ''inputs''
          = Some (JObj [(''weight'', JFloat 9), (''height'', JNull),
                        (''age_months'', JFloat 12), (''gender'', JStr ''F'')])"
    by (simp add: json_of_option_def)
  from one two show ?thesis by simp
qed

text \<open>Two bodies that differ in the value of \<^verbatim>\<open>age_months\<close> only.\<close>

lemma inputs_age_change:
  assumes "\<forall>k. k \<noteq> ''age_months'' \<longrightarrow> map_of kvs1 k = map_of kvs2 k"
    and "py_get (JObj kvs1) ''age_months'' = Inr av1" and "as_float float_str av1 = Inr (Some a1)"
    and "py_get (JObj kvs2) ''age_months'' = Inr av2" and "as_float float_str av2 = Inr (Some a2)"
  shows "api_calculate_zscore_inputs float_str (JObj kvs2) =
     (case api_calculate_zscore_inputs float_str (JObj kvs1) of
        Inl e \<Rightarrow> Inl e
      | Inr (Reject r) \<Rightarrow> Inr (Reject r)
      | Inr (Accept x) \<Rightarrow> Inr (Accept (x\<lparr>arg_age_months := a2\<rparr>)))"
proof -
  have e: "map_of kvs1 ''weight'' = map_of kvs2 ''weight''"
    "map_of kvs1 ''height'' = map_of kvs2 ''height''"
    "map_of kvs1 ''gender'' = map_of kvs2 ''gender''"
    "map_of kvs1 ''type'' = map_of kvs2 ''type''"
    using assms(1) by simp_all
  have a: "as_float float_str (case map_of kvs1 ''age_months'' of None \<Rightarrow> JNull | Some x \<Rightarrow> x)
        = Inr (Some a1)"
    "as_float float_str (case map_of kvs2 ''age_months'' of None \<Rightarrow> JNull | Some x \<Rightarrow> x)
        = Inr (Some a2)"
    using assms(2-5) by (auto simp add: py_get_def)
  show ?thesis
    unfolding inputs_object e a
    by (auto split: sum.splits)
qed

text \<open>
  C10. For the measurement type \<^verbatim>\<open>bfa\<close> the z-score does not depend on
  \<^verbatim>\<open>age_months\<close>: the lookup is \<^verbatim>\<open>calc.bfa(weight, height, gender)\<close>, with the
  height where the other indices have the age. Two requests that differ only in the value
  of \<^verbatim>\<open>age_months\<close>, a number in both, get the same status, the same z-score and
  the same classification.
\<close>

theorem bfa_ignores_age_months:
  "(calc s = Some c \<longrightarrow>
      z_score_lookup c w h a1 g (JStr ''bfa'') = bfa c w h g)
   \<and> fst (calculate_z_score s w h a1 g (JStr ''bfa''))
       = fst (calculate_z_score s w h a2 g (JStr ''bfa''))
   \<and> ((\<forall>k. k \<noteq> ''age_months'' \<longrightarrow> map_of kvs1 k = map_of kvs2 k)
        \<and> map_of kvs1 ''type'' = Some (JStr ''bfa'')
        \<and> py_get (JObj kvs1) ''age_months'' = Inr av1
        \<and> as_float float_str av1 = Inr (Some a1)
        \<and> py_get (JObj kvs2) ''age_months'' = Inr av2
        \<and> as_float float_str av2 = Inr (Some a2) \<longrightarrow>
        fst (fst (api_calculate_zscore float_str s (JObj kvs1)))
          = fst (fst (api_calculate_zscore float_str s (JObj kvs2)))
        \<and> body_field (fst (api_calculate_zscore float_str s (JObj kvs1))) ''z_score''
          = body_field (fst (api_calculate_zscore float_str s (JObj kvs2))) ''z_score''
        \<and> body_field (fst (api_calculate_zscore float_str s (JObj kvs1))) ''classification''
          = body_field (fst (api_calculate_zscore float_str s (JObj kvs2))) ''classification''
        \<and> body_field (fst (api_calculate_zscore float_str s (JObj kvs1))) ''error''
          = body_field (fst (api_calculate_zscore float_str s (JObj kvs2))) ''error'')"
proof (intro conjI impI)
  show "z_score_lookup c w h a1 g (JStr ''bfa'') = bfa c w h g"
    by (simp add: z_score_lookup_def)
next
  show z: "fst (calculate_z_score s w h a1 g (JStr ''bfa''))
       = fst (calculate_z_score s w h a2 g (JStr ''bfa''))" for w h g
    by (simp add: calculate_z_score_def z_score_lookup_def
        split: option.splits calc_result.splits)
  assume p: "(\<forall>k. k \<noteq> ''age_months'' \<longrightarrow> map_of kvs1 k = map_of kvs2 k)
        \<and> map_of kvs1 ''type'' = Some (JStr ''bfa'')
        \<and> py_get (JObj kvs1) ''age_months'' = Inr av1
        \<and> as_float float_str av1 = Inr (Some a1)
        \<and> py_get (JObj kvs2) ''age_months'' = Inr av2
        \<and> as_float float_str av2 = Inr (Some a2)"
  then have i2: "api_calculate_zscore_inputs float_str (JObj kvs2) =
     (case api_calculate_zscore_inputs float_str (JObj kvs1) of
        Inl e \<Rightarrow> Inl e
      | Inr (Reject r) \<Rightarrow> Inr (Reject r)
      | Inr (Accept x) \<Rightarrow> Inr (Accept (x\<lparr>arg_age_months := a2\<rparr>)))"
    by (intro inputs_age_change) blast+
  have t: "arg_type x = JStr ''bfa'' \<and> arg_age_months x = a1"
    if "api_calculate_zscore_inputs float_str (JObj kvs1) = Inr (Accept x)" for x
  proof -
    from that inputs_Accept_iff [of float_str "JObj kvs1" x]
    obtain av tv where "py_get (JObj kvs1) ''age_months'' = Inr av"
      and "as_float float_str av = Inr (Some (arg_age_months x))"
      and "py_get_default (JObj kvs1) ''type'' (JStr ''wfa'') = Inr tv" and "arg_type x = tv"
      by blast
    with p show ?thesis by auto
  qed
  have r: "fst (fst (api_calculate_zscore float_str s (JObj kvs1)))
          = fst (fst (api_calculate_zscore float_str s (JObj kvs2)))
        \<and> body_field (fst (api_calculate_zscore float_str s (JObj kvs1))) ''z_score''
          = body_field (fst (api_calculate_zscore float_str s (JObj kvs2))) ''z_score''
        \<and> body_field (fst (api_calculate_zscore float_str s (JObj kvs1))) ''classification''
          = body_field (fst (api_calculate_zscore float_str s (JObj kvs2))) ''classification''
        \<and> body_field (fst (api_calculate_zscore float_str s (JObj kvs1))) ''error''
          = body_field (fst (api_calculate_zscore float_str s (JObj kvs2))) ''error''"
  proof (cases "api_calculate_zscore_inputs float_str (JObj kvs1)")
    case (Inl e)
    with i2 show ?thesis by (simp add: api_calculate_zscore_def)
  next
    case (Inr ch)
    show ?thesis
    proof (cases ch)
      case (Reject r)
      with Inr i2 show ?thesis by (simp add: api_calculate_zscore_def)
    next
      case (Accept x)
      with Inr have ix: "api_calculate_zscore_inputs float_str (JObj kvs1) = Inr (Accept x)"
        by simp
      from t [OF ix] have tx: "arg_type x = JStr ''bfa''" and ax: "arg_age_months x = a1"
        by simp_all
      from ix i2 have i2x: "api_calculate_zscore_inputs float_str (JObj kvs2)
          = Inr (Accept (x\<lparr>arg_age_months := a2\<rparr>))"
        by simp
      have zz: "fst (calculate_z_score s (arg_weight x) (arg_height x) a2 (arg_gender x)
            (JStr ''bfa''))
          = fst (calculate_z_score s (arg_weight x) (arg_height x) a1 (arg_gender x)
            (JStr ''bfa''))"
        using z [of "arg_weight x" "arg_height x" "arg_gender x"] by simp
      show ?thesis
        by (cases "fst (calculate_z_score s (arg_weight x) (arg_height x) a1 (arg_gender x)
            (JStr ''bfa''))")
          (simp_all add: api_calculate_zscore_def ix i2x tx ax zz zscore_response_def
            body_field_def jsonify_def error_response_def case_prod_beta)
    qed
  qed
  from r show "fst (fst (api_calculate_zscore float_str s (JObj kvs1)))
          = fst (fst (api_calculate_zscore float_str s (JObj kvs2)))" by blast
  from r show "body_field (fst (api_calculate_zscore float_str s (JObj kvs1))) ''z_score''
          = body_field (fst (api_calculate_zscore float_str s (JObj kvs2))) ''z_score''" by blast
  from r show "body_field (fst (api_calculate_zscore float_str s (JObj kvs1))) ''classification''
          = body_field (fst (api_calculate_zscore float_str s (JObj kvs2))) ''classification''"
    by blast
  from r show "body_field (fst (api_calculate_zscore float_str s (JObj kvs1))) ''error''
          = body_field (fst (api_calculate_zscore float_str s (JObj kvs2))) ''error''" by blast
qed

text \<open>
  With a calculator that returns its second argument, ages 12 and 24 give the same
  \<^verbatim>\<open>bfa\<close> z-score (the height), while \<^verbatim>\<open>wfa\<close> gives the age.
\<close>

theorem bfa_ignores_age_months_witness:
  "body_field (fst (api_calculate_zscore digits_float \<lparr>calc = Some echo_calc, stdout = []\<rparr>
      (JObj [(''weight'', JFloat 9.5), (''height'', JInt 75), (''age_months'', JInt 12),
             (''type'', JStr ''bfa'')]))) ''z_score'' = Some (JFloat 75)
   \<and> body_field (fst (api_calculate_zscore digits_float \<lparr>calc = Some echo_calc, stdout = []\<rparr>
      (JObj [(''weight'', JFloat 9.5), (''height'', JInt 75), (''age_months'', JInt 24),
             (''type'', JStr ''bfa'')]))) ''z_score'' = Some (JFloat 75)
   \<and> body_field (fst (api_calculate_zscore digits_float \<lparr>calc = Some echo_calc, stdout = []\<rparr>
      (JObj [(''weight'', JFloat 9.5), (''height'', JInt 75), (''age_months'', JInt 24),
             (''type'', JStr ''wfa'')]))) ''z_score'' = Some (JFloat 24)"
proof -
  let ?s = "\<lparr>calc = Some echo_calc, stdout = []\<rparr>"
  let ?k1 = "[(''weight'', JFloat 9.5), (''height'', JInt 75), (''age_months'', JInt 12),
             (''type'', JStr ''bfa'')]"
  let ?k2 = "[(''weight'', JFloat 9.5), (''height'', JInt 75), (''age_months'', JInt 24),
             (''type'', JStr ''bfa'')]"
  let ?k3 = "[(''weight'', JFloat 9.5), (''height'', JInt 75), (''age_months'', JInt 24),
             (''type'', JStr ''wfa'')]"
  have r75: "py_round 75 2 = 75" and r24: "py_round 24 2 = 24"
    by (simp_all add: py_round_def round_half_even_def Let_def)
  have one: "body_field (fst (api_calculate_zscore digits_float ?s (JObj ?k1))) ''z_score''
      = Some (JFloat 75)"
    by (simp add: inputs_object api_calculate_zscore_def upper_char_def float_int_limit_def
        calculate_z_score_def z_score_lookup_def echo_calc_def zscore_response_def
        jsonify_def body_field_def r75)
  have three: "body_field (fst (api_calculate_zscore digits_float ?s (JObj ?k3))) ''z_score''
      = Some (JFloat 24)"
    by (simp add: inputs_object api_calculate_zscore_def upper_char_def float_int_limit_def
        calculate_z_score_def z_score_lookup_def echo_calc_def zscore_response_def
        jsonify_def body_field_def r24)
  have p: "(\<forall>k. k \<noteq> ''age_months'' \<longrightarrow> map_of ?k1 k = map_of ?k2 k)
        \<and> map_of ?k1 ''type'' = Some (JStr ''bfa'')
        \<and> py_get (JObj ?k1) ''age_months'' = Inr (JInt 12)
        \<and> as_float digits_float (JInt 12) = Inr (Some 12)
        \<and> py_get (JObj ?k2) ''age_months'' = Inr (JInt 24)
        \<and> as_float digits_float (JInt 24) = Inr (Some 24)"
    by (simp add: py_get_def float_int_limit_def)
  from bfa_ignores_age_months [where ?kvs1.0 = ?k1 and ?kvs2.0 = ?k2 and float_str = digits_float
      and s = ?s and ?av1.0 = "JInt 12" and ?a1.0 = 12 and ?av2.0 = "JInt 24" and ?a2.0 = 24] p
  have "body_field (fst (api_calculate_zscore digits_float ?s (JObj ?k1))) ''z_score''
      = body_field (fst (api_calculate_zscore digits_float ?s (JObj ?k2))) ''z_score''"
    by blast
  with one have two: "body_field (fst (api_calculate_zscore digits_float ?s (JObj ?k2))) ''z_score''
      = Some (JFloat 75)"
    by simp
  from one two three show ?thesis by simp
qed

end
